theory Spec2Isabelle
  imports Main
begin

section \<open>Text\<close>

text \<open>
  A Python string is a list of characters; the characters of the model are the code
  points below 256. \<open>isspace\<close> is Python's \<^verbatim>\<open>str.isspace\<close> on them:
  tab to carriage return, the four separators 28..31, the space, NEL and the
  no-break space. \<open>strip\<close> is \<^verbatim>\<open>str.strip()\<close> with no argument.
\<close>

definition isspace :: "char \<Rightarrow> bool" where
  "isspace c = (let n = (of_char c :: nat) in
     (9 \<le> n \<and> n \<le> 13) \<or> (28 \<le> n \<and> n \<le> 32) \<or> n = 133 \<or> n = 160)"

definition strip :: "string \<Rightarrow> string" where
  "strip s = rev (dropWhile isspace (rev (dropWhile isspace s)))"

definition isdigit :: "char \<Rightarrow> bool" where
  "isdigit c = (let n = (of_char c :: nat) in 48 \<le> n \<and> n \<le> 57)"

definition digit_value :: "char \<Rightarrow> int" where
  "digit_value c = int (of_char c) - 48"

text \<open>
  The digits of a decimal literal as \<^verbatim>\<open>int()\<close> reads them: one digit or more,
  with single underscores allowed between two digits.
\<close>

fun digits_ok :: "string \<Rightarrow> bool" where
  "digits_ok [] = False"
| "digits_ok [c] = isdigit c"
| "digits_ok (c # d # cs) =
     (isdigit c \<and> (if d = CHR ''_'' then digits_ok cs else digits_ok (d # cs)))"

definition digits_value :: "string \<Rightarrow> int" where
  "digits_value ds = foldl (\<lambda>a c. 10 * a + digit_value c) 0 (filter isdigit ds)"

text \<open>
  \<^verbatim>\<open>int(s)\<close> for a string, base 10: surrounding whitespace is dropped, one sign is
  allowed, and \<open>None\<close> stands for \<^verbatim>\<open>ValueError\<close>. \<open>limit\<close> is the interpreter's
  \<^verbatim>\<open>sys.get_int_max_str_digits()\<close>: 0 switches the limit off, otherwise a literal
  with more digits is refused.
\<close>

definition py_int :: "nat \<Rightarrow> string \<Rightarrow> int option" where
  "py_int limit s =
     (let t = strip s;
          neg = (t \<noteq> [] \<and> hd t = CHR ''-'');
          ds = (if t \<noteq> [] \<and> (hd t = CHR ''-'' \<or> hd t = CHR ''+'') then tl t else t)
      in if digits_ok ds \<and> \<not> (0 < limit \<and> limit < length (filter isdigit ds))
         then Some (if neg then - digits_value ds else digits_value ds)
         else None)"

fun str_nat :: "nat \<Rightarrow> string" where
  "str_nat n =
     (if n < 10 then [''0123456789'' ! n]
      else str_nat (n div 10) @ [''0123456789'' ! (n mod 10)])"

declare str_nat.simps [simp del]

definition str_int :: "int \<Rightarrow> string" where
  "str_int i = (if i < 0 then CHR ''-'' # str_nat (nat (- i)) else str_nat (nat i))"

definition apostrophe :: string where
  "apostrophe = [CHR 0x27]"

definition join :: "string \<Rightarrow> string list \<Rightarrow> string" where
  "join sep xs = (case xs of [] \<Rightarrow> [] | y # ys \<Rightarrow> y @ concat (map (\<lambda>z. sep @ z) ys))"

section \<open>Values and the inventory record\<close>

text \<open>
  The values the record holds: \<^verbatim>\<open>None\<close>, a string, an integer or a float.
  Floating-point numbers are a type parameter \<open>'f\<close>: the program only produces them
  (by the conversions of the host below) and prints them.

  \<^verbatim>\<open>self.specs\<close> is a Python \<^verbatim>\<open>dict\<close>: an association list in insertion order
  with distinct keys. \<open>setitem\<close> is \<^verbatim>\<open>d[k] = v\<close>: a key already there keeps its
  place, a new key goes to the end.
\<close>

datatype 'f pyval = PNone | PStr string | PInt int | PFloat 'f

type_synonym 'f dict = "(string \<times> 'f pyval) list"

fun setitem :: "'k \<Rightarrow> 'v \<Rightarrow> ('k \<times> 'v) list \<Rightarrow> ('k \<times> 'v) list" where
  "setitem k v [] = [(k, v)]"
| "setitem k v ((k', v') # d) =
     (if k' = k then (k, v) # d else (k', v') # setitem k v d)"

definition keys :: "('k \<times> 'v) list \<Rightarrow> 'k list" where
  "keys d = map fst d"

definition dict_get :: "('k \<times> 'v) list \<Rightarrow> 'k \<Rightarrow> 'v \<Rightarrow> 'v" where
  "dict_get d k dflt = (case map_of d k of Some v \<Rightarrow> v | None \<Rightarrow> dflt)"

section \<open>The host\<close>

text \<open>
  What \<^verbatim>\<open>subprocess.check_output\<close> can raise; the runner's bare \<^verbatim>\<open>except:\<close>
  catches every one of them.
\<close>

datatype proc_error = CalledProcessError nat | OSError | UnicodeDecodeError | KeyboardInterrupt

text \<open>
  The optional \<^verbatim>\<open>wmi\<close> module: the attributes of the management objects the
  program reads are \<^verbatim>\<open>None\<close>, strings or integers. A query is \<open>None\<close> when the
  call raises, and the list of objects it returns otherwise.
\<close>

datatype wval = WNone | WStr string | WInt int

record computer_system =
  cs_Manufacturer :: wval
  cs_Model :: wval
  cs_TotalPhysicalMemory :: wval

record processor =
  cpu_Name :: wval

record bios =
  bios_SerialNumber :: wval

record disk_drive =
  disk_Model :: wval
  disk_Size :: wval

record video_controller =
  gpu_Name :: wval
  gpu_AdapterRAM :: wval
  gpu_DriverVersion :: wval

record wmi_conn =
  Win32_ComputerSystem :: "computer_system list option"
  Win32_Processor :: "processor list option"
  Win32_BIOS :: "bios list option"
  Win32_OperatingSystem :: "unit list option"
  Win32_DiskDrive :: "disk_drive list option"
  Win32_VideoController :: "video_controller list option"

text \<open>
  \<open>NoModule\<close>: \<^verbatim>\<open>import wmi\<close> raises \<^verbatim>\<open>ImportError\<close>. \<open>NoConnection\<close>: the
  module is there and \<^verbatim>\<open>wmi.WMI()\<close> raises. The state is the same for the two
  places of one pass that import the module.
\<close>

datatype wmi_module = NoModule | NoConnection | Connected wmi_conn

text \<open>What a float is for the JSON encoder: a finite number, or one of its three names.\<close>

datatype float_kind = Finite | NaN | PosInf | NegInf

text \<open>
  Everything a collection pass reads from its environment. \<open>check_output\<close> is
  \<^verbatim>\<open>subprocess.check_output(command, shell=True, text=True, ...)\<close>: \<open>Inl\<close> is the
  exception it raises, \<open>Inr\<close> the captured standard output (every command of a pass
  is run once). The float conversions are the host's:
  \<open>round_div h n k\<close> is \<^verbatim>\<open>round(n / 1024 / ... / 1024, 2)\<close> with \<open>k\<close> divisions of
  the integer \<open>n\<close>, \<open>None\<close> when the division raises \<^verbatim>\<open>OverflowError\<close>;
  \<open>round_gb h v\<close> is \<^verbatim>\<open>round(float(v) / 1024**3, 2)\<close>, \<open>None\<close> when \<^verbatim>\<open>float(v)\<close>
  raises; \<open>float_str\<close> is \<^verbatim>\<open>str\<close> of a float (and its \<^verbatim>\<open>repr\<close>, the same text),
  \<open>float_kind\<close> tells a finite float from the three others.
\<close>

record 'f host =
  system :: string
  platform_platform :: string
  platform_node :: string
  platform_version :: string
  platform_machine :: string
  scan_date :: string
  check_output :: "string \<Rightarrow> proc_error + string"
  wmi :: wmi_module
  int_max_str_digits :: nat
  round_div :: "int \<Rightarrow> nat \<Rightarrow> 'f option"
  round_gb :: "wval \<Rightarrow> 'f option"
  float_str :: "'f \<Rightarrow> string"
  float_kind :: "'f \<Rightarrow> float_kind"

fun of_wval :: "wval \<Rightarrow> 'f pyval" where
  "of_wval WNone = PNone"
| "of_wval (WStr s) = PStr s"
| "of_wval (WInt i) = PInt i"

fun truthy :: "wval \<Rightarrow> bool" where
  "truthy WNone = False"
| "truthy (WStr s) = (s \<noteq> [])"
| "truthy (WInt i) = (i \<noteq> 0)"

fun py_str :: "'f host \<Rightarrow> 'f pyval \<Rightarrow> string" where
  "py_str h PNone = ''None''"
| "py_str h (PStr s) = s"
| "py_str h (PInt i) = str_int i"
| "py_str h (PFloat x) = float_str h x"

datatype error = WMIError | IndexError | ConversionError | TypeError | EOFError | FileError

section \<open>The collector\<close>

definition get_command_output :: "'f host \<Rightarrow> string \<Rightarrow> string" where
  "get_command_output h command =
     (case check_output h command of
        Inr output \<Rightarrow> strip output
      | Inl e \<Rightarrow> ''Not available'')"

text \<open>
  \<^verbatim>\<open>get_linux_info\<close>: six fields, in the order of the source. The RAM field is a
  number when the text converts, and the string \<open>Unknown\<close> when the \<^verbatim>\<open>try\<close> block
  raises (\<^verbatim>\<open>int\<close> refuses the text, or the division overflows).
\<close>

definition get_linux_info :: "'f host \<Rightarrow> 'f dict \<Rightarrow> 'f dict" where
  "get_linux_info h specs0 =
     (let specs = setitem ''CPU''
            (PStr (get_command_output h
               (''lscpu | grep 'Model name' | cut -f 2 -d ':'' @ apostrophe))) specs0;
          mem_kb = get_command_output h
               (''grep MemTotal /proc/meminfo | awk '{print $2}'' @ apostrophe);
          specs = setitem ''RAM_GB''
            (case py_int (int_max_str_digits h) mem_kb of
               None \<Rightarrow> PStr ''Unknown''
             | Some n \<Rightarrow>
                 (case round_div h n 2 of
                    None \<Rightarrow> PStr ''Unknown''
                  | Some x \<Rightarrow> PFloat x)) specs;
          specs = setitem ''Storage''
            (PStr (get_command_output h
               (''df -h / | awk 'NR==2 {print $2}'' @ apostrophe))) specs;
          specs = setitem ''Serial_Number''
            (PStr (get_command_output h ''sudo dmidecode -s system-serial-number'')) specs;
          specs = setitem ''Model''
            (PStr (get_command_output h ''sudo dmidecode -s system-product-name'')) specs;
          specs = setitem ''Manufacturer''
            (PStr (get_command_output h ''sudo dmidecode -s system-manufacturer'')) specs
      in specs)"

definition get_mac_info :: "'f host \<Rightarrow> 'f dict \<Rightarrow> 'f dict" where
  "get_mac_info h specs0 =
     (let specs = setitem ''Serial_Number''
            (PStr (get_command_output h
               (''system_profiler SPHardwareDataType | grep 'Serial Number' | awk '{print $4}''
                @ apostrophe))) specs0;
          specs = setitem ''Model''
            (PStr (get_command_output h
               (''system_profiler SPHardwareDataType | grep 'Model Name' | cut -f 2 -d ':''
                @ apostrophe))) specs;
          specs = setitem ''CPU''
            (PStr (get_command_output h ''sysctl -n machdep.cpu.brand_string'')) specs;
          ram_bytes = get_command_output h
               (''sysctl hw.memsize | awk '{print $2}'' @ apostrophe);
          specs = setitem ''RAM_GB''
            (case py_int (int_max_str_digits h) ram_bytes of
               None \<Rightarrow> PStr ''Unknown''
             | Some n \<Rightarrow>
                 (case round_div h n 3 of
                    None \<Rightarrow> PStr ''Unknown''
                  | Some x \<Rightarrow> PFloat x)) specs;
          specs = setitem ''Storage''
            (PStr (get_command_output h
               (''diskutil info disk0 | grep 'Disk Size' | awk '{print $3,$4}''
                @ apostrophe))) specs
      in specs)"

text \<open>
  \<^verbatim>\<open>c.Win32_X()[0]\<close>: the query may raise, and indexing an empty result raises
  \<^verbatim>\<open>IndexError\<close>.
\<close>

definition first_of :: "'a list option \<Rightarrow> error + 'a" where
  "first_of q =
     (case q of
        None \<Rightarrow> Inl WMIError
      | Some [] \<Rightarrow> Inl IndexError
      | Some (x # xs) \<Rightarrow> Inr x)"

fun wstr :: "wval \<Rightarrow> string" where
  "wstr WNone = ''None''"
| "wstr (WStr s) = s"
| "wstr (WInt i) = str_int i"

text \<open>The loop over the disk drives; it stops at the first size that does not convert.\<close>

fun disk_strings :: "'f host \<Rightarrow> disk_drive list \<Rightarrow> error + string list" where
  "disk_strings h [] = Inr []"
| "disk_strings h (disk # rest) =
     (case round_gb h (disk_Size disk) of
        None \<Rightarrow> Inl ConversionError
      | Some size_gb \<Rightarrow>
          (case disk_strings h rest of
             Inl e \<Rightarrow> Inl e
           | Inr disks \<Rightarrow>
               Inr ((wstr (disk_Model disk) @ '' ('' @ float_str h size_gb @ '' GB)'') # disks)))"

text \<open>
  \<^verbatim>\<open>get_windows_info\<close> returns the record as the method leaves it and the exception
  that leaves the method, if any. Only \<^verbatim>\<open>ImportError\<close> is caught, and leads to the
  five text-table commands; every other exception of the \<^verbatim>\<open>try\<close> block goes on to
  the caller with the fields written so far.
\<close>

definition get_windows_info :: "'f host \<Rightarrow> 'f dict \<Rightarrow> 'f dict \<times> error option" where
  "get_windows_info h specs0 =
     (case wmi h of
        NoModule \<Rightarrow>
          (let specs = setitem ''Serial_Number''
                 (PStr (get_command_output h ''wmic bios get serialnumber'')) specs0;
               specs = setitem ''Model''
                 (PStr (get_command_output h ''wmic computersystem get model'')) specs;
               specs = setitem ''CPU''
                 (PStr (get_command_output h ''wmic cpu get name'')) specs;
               specs = setitem ''RAM_GB''
                 (PStr (get_command_output h ''wmic computersystem get totalphysicalmemory'')) specs;
               specs = setitem ''Storage''
                 (PStr (get_command_output h ''wmic diskdrive get size,model'')) specs
           in (specs, None))
      | NoConnection \<Rightarrow> (specs0, Some WMIError)
      | Connected c \<Rightarrow>
          (case first_of (Win32_ComputerSystem c) of
             Inl e \<Rightarrow> (specs0, Some e)
           | Inr sys \<Rightarrow>
          (case first_of (Win32_Processor c) of
             Inl e \<Rightarrow> (specs0, Some e)
           | Inr cpu \<Rightarrow>
          (case first_of (Win32_BIOS c) of
             Inl e \<Rightarrow> (specs0, Some e)
           | Inr bios \<Rightarrow>
          (case first_of (Win32_OperatingSystem c) of
             Inl e \<Rightarrow> (specs0, Some e)
           | Inr os_info \<Rightarrow>
          (let specs = setitem ''Serial_Number'' (of_wval (bios_SerialNumber bios)) specs0;
               specs = setitem ''Manufacturer'' (of_wval (cs_Manufacturer sys)) specs;
               specs = setitem ''Model'' (of_wval (cs_Model sys)) specs;
               specs = setitem ''CPU'' (of_wval (cpu_Name cpu)) specs
           in case round_gb h (cs_TotalPhysicalMemory sys) of
                None \<Rightarrow> (specs, Some ConversionError)
              | Some ram \<Rightarrow>
                  (let specs = setitem ''RAM_GB'' (PFloat ram) specs
                   in case Win32_DiskDrive c of
                        None \<Rightarrow> (specs, Some WMIError)
                      | Some drives \<Rightarrow>
                          (case disk_strings h drives of
                             Inl e \<Rightarrow> (specs, Some e)
                           | Inr disks \<Rightarrow>
                               (setitem ''Storage'' (PStr (join '', '' disks)) specs,
                                None)))))))))"

section \<open>GPU descriptors\<close>

text \<open>
  An element of the list \<^verbatim>\<open>get_gpu_info\<close> returns: a dictionary, or anything else
  (the merge loop of \<^verbatim>\<open>collect_info\<close> tests \<^verbatim>\<open>isinstance(gpu, dict)\<close>).
\<close>

datatype 'f descriptor = Dict "'f dict" | NonDict "'f pyval"

text \<open>
  The loop over the video controllers, inside the \<^verbatim>\<open>try\<close> block of the Windows
  branch: \<open>None\<close> when building a descriptor raises (the adapter RAM is truthy and
  does not convert).
\<close>

fun video_controllers :: "'f host \<Rightarrow> video_controller list \<Rightarrow> 'f descriptor list option" where
  "video_controllers h [] = Some []"
| "video_controllers h (gpu # rest) =
     (case (if truthy (gpu_AdapterRAM gpu)
            then (case round_gb h (gpu_AdapterRAM gpu) of
                    None \<Rightarrow> None
                  | Some x \<Rightarrow> Some (PStr (float_str h x @ '' GB'')))
            else Some (PStr ''Unknown'')) of
        None \<Rightarrow> None
      | Some memory \<Rightarrow>
          (case video_controllers h rest of
             None \<Rightarrow> None
           | Some gpus \<Rightarrow>
               Some (Dict [(''Name'', of_wval (gpu_Name gpu)),
                           (''Memory'', memory),
                           (''Driver_Version'', of_wval (gpu_DriverVersion gpu))] # gpus)))"

text \<open>
  \<^verbatim>\<open>get_gpu_info\<close>: the outer \<open>None\<close> is Python's \<^verbatim>\<open>None\<close>, which the method
  returns when no branch of its \<^verbatim>\<open>if\<close> chain is taken. The method raises nothing:
  the Windows branch catches every exception and falls back to the text table.
\<close>

definition get_gpu_info :: "'f host \<Rightarrow> 'f descriptor list option" where
  "get_gpu_info h =
     (if system h = ''Windows'' then
        (let fallback = Some [Dict [(''Name'', PStr (get_command_output h
               ''wmic path win32_VideoController get name,adapterram,driverversion''))]]
         in case wmi h of
              NoModule \<Rightarrow> fallback
            | NoConnection \<Rightarrow> fallback
            | Connected c \<Rightarrow>
                (case Win32_VideoController c of
                   None \<Rightarrow> fallback
                 | Some controllers \<Rightarrow>
                     (case video_controllers h controllers of
                        None \<Rightarrow> fallback
                      | Some gpus \<Rightarrow> Some gpus)))
      else if system h = ''Linux'' then
        (let gpu_info = get_command_output h (''lspci | grep -E 'vga|3d|2d'' @ apostrophe);
             gpu_info =
               (if gpu_info = [] then
                  (let gpu_info = get_command_output h
                         ''nvidia-smi --query-gpu=gpu_name,memory.total,driver_version --format=csv,noheader''
                   in if gpu_info = [] then
                        get_command_output h (''glxinfo | grep 'OpenGL renderer'' @ apostrophe)
                      else gpu_info)
                else gpu_info)
         in Some [Dict [(''Name'', PStr gpu_info)]])
      else if system h = ''Darwin'' then
        Some [Dict [(''Name'', PStr (get_command_output h ''system_profiler SPDisplaysDataType''))]]
      else None)"

text \<open>
  The merge loop of \<^verbatim>\<open>collect_info\<close>, \<open>i\<close> being the index \<^verbatim>\<open>enumerate\<close> gives the
  head of the list.
\<close>

fun merge_gpus :: "'f host \<Rightarrow> nat \<Rightarrow> 'f descriptor list \<Rightarrow> 'f dict \<Rightarrow> 'f dict" where
  "merge_gpus h i [] specs = specs"
| "merge_gpus h i (gpu # rest) specs =
     merge_gpus h (i + 1) rest
       (case gpu of
          Dict d \<Rightarrow>
            setitem (''GPU_'' @ str_nat (i + 1) @ ''_Driver'')
              (dict_get d ''Driver_Version'' (PStr ''Unknown''))
              (setitem (''GPU_'' @ str_nat (i + 1) @ ''_Memory'')
                 (dict_get d ''Memory'' (PStr ''Unknown''))
                 (setitem (''GPU_'' @ str_nat (i + 1) @ ''_Name'')
                    (dict_get d ''Name'' (PStr ''Unknown'')) specs))
        | NonDict v \<Rightarrow> setitem (''GPU_'' @ str_nat (i + 1)) (PStr (py_str h v)) specs)"

section \<open>The collection pass\<close>

text \<open>
  \<^verbatim>\<open>collect_info\<close> returns the record as the pass leaves it, and what the call
  gives its caller: \<open>Inr\<close> the record it returns, \<open>Inl\<close> the exception it raises.
  Iterating over \<^verbatim>\<open>None\<close> raises \<^verbatim>\<open>TypeError\<close>.
\<close>

definition common_fields :: "'f host \<Rightarrow> 'f dict \<Rightarrow> 'f dict" where
  "common_fields h specs0 =
     (let specs = setitem ''OS'' (PStr (platform_platform h)) specs0;
          specs = setitem ''Hostname'' (PStr (platform_node h)) specs;
          specs = setitem ''OS_Version'' (PStr (platform_version h)) specs;
          specs = setitem ''Architecture'' (PStr (platform_machine h)) specs;
          specs = setitem ''Scan_Date'' (PStr (scan_date h)) specs
      in specs)"

definition platform_info :: "'f host \<Rightarrow> 'f dict \<Rightarrow> 'f dict \<times> error option" where
  "platform_info h specs =
     (if system h = ''Linux'' then (get_linux_info h specs, None)
      else if system h = ''Darwin'' then (get_mac_info h specs, None)
      else if system h = ''Windows'' then get_windows_info h specs
      else (specs, None))"

definition collect_info :: "'f host \<Rightarrow> 'f dict \<Rightarrow> 'f dict \<times> (error + 'f dict)" where
  "collect_info h specs0 =
     (case platform_info h (common_fields h specs0) of
        (specs, Some e) \<Rightarrow> (specs, Inl e)
      | (specs, None) \<Rightarrow>
          (case get_gpu_info h of
             None \<Rightarrow> (specs, Inl TypeError)
           | Some gpu_info \<Rightarrow>
               (let specs = merge_gpus h 0 gpu_info specs in (specs, Inr specs))))"

section \<open>The report writer\<close>

text \<open>
  The naming decision of \<^verbatim>\<open>save_results\<close>: \<open>response\<close> is the line the prompt
  reads, \<open>timestamp\<close> the text of \<^verbatim>\<open>strftime('%Y%m%d_%H%M%S')\<close>.
\<close>

definition filename_base :: "string \<Rightarrow> string \<Rightarrow> string" where
  "filename_base response timestamp =
     (let base = strip response;
          base = (if base = [] then ''system_info'' else base)
      in base @ ''_'' @ timestamp)"

subsection \<open>The text of the JSON file\<close>

text \<open>
  \<^verbatim>\<open>json.dump(self.specs, f, indent=4)\<close> with the encoder's defaults. A string is
  written between double quotes with \<^verbatim>\<open>ensure_ascii\<close>: the quote, the backslash and
  the five control characters that have a short escape take it, every other
  character outside the printable ASCII range is written \<^verbatim>\<open>\u00xx\<close>.
\<close>

definition hex_digit :: "nat \<Rightarrow> char" where
  "hex_digit n = ''0123456789abcdef'' ! n"

definition json_escape :: "char \<Rightarrow> string" where
  "json_escape c =
     (let n = (of_char c :: nat) in
      if c = CHR 0x22 then [CHR 0x5C, CHR 0x22]
      else if c = CHR 0x5C then [CHR 0x5C, CHR 0x5C]
      else if c = CHR 0x08 then [CHR 0x5C, CHR ''b'']
      else if c = CHR 0x0C then [CHR 0x5C, CHR ''f'']
      else if c = CHR 0x0A then [CHR 0x5C, CHR ''n'']
      else if c = CHR 0x0D then [CHR 0x5C, CHR ''r'']
      else if c = CHR 0x09 then [CHR 0x5C, CHR ''t'']
      else if 32 \<le> n \<and> n \<le> 126 then [c]
      else [CHR 0x5C, CHR ''u'', CHR ''0'', CHR ''0'', hex_digit (n div 16), hex_digit (n mod 16)])"

definition json_string :: "string \<Rightarrow> string" where
  "json_string s = CHR 0x22 # concat (map json_escape s) @ [CHR 0x22]"

text \<open>
  A float is written by \<^verbatim>\<open>float.__repr__\<close> when it is finite and by name
  otherwise; an integer by \<^verbatim>\<open>int.__repr__\<close>; \<^verbatim>\<open>None\<close> as \<^verbatim>\<open>null\<close>.
\<close>

definition json_float :: "'f host \<Rightarrow> 'f \<Rightarrow> string" where
  "json_float h x =
     (case float_kind h x of
        Finite \<Rightarrow> float_str h x
      | NaN \<Rightarrow> ''NaN''
      | PosInf \<Rightarrow> ''Infinity''
      | NegInf \<Rightarrow> ''-Infinity'')"

fun json_value :: "'f host \<Rightarrow> 'f pyval \<Rightarrow> string" where
  "json_value h PNone = ''null''"
| "json_value h (PStr s) = json_string s"
| "json_value h (PInt i) = str_int i"
| "json_value h (PFloat x) = json_float h x"

text \<open>
  The object: with \<^verbatim>\<open>indent=4\<close> every member is on a line of its own, indented by
  four spaces, the members are separated by a comma, the key and the value by a
  colon and a space; the empty dictionary is written \<^verbatim>\<open>{}\<close>.
\<close>

definition json_member :: "'f host \<Rightarrow> string \<times> 'f pyval \<Rightarrow> string" where
  "json_member h m = ''    '' @ json_string (fst m) @ '': '' @ json_value h (snd m)"

definition json_dumps :: "'f host \<Rightarrow> 'f dict \<Rightarrow> string" where
  "json_dumps h specs =
     (if specs = [] then ''{}''
      else ''{'' @ [CHR 0x0A] @ join ('','' @ [CHR 0x0A]) (map (json_member h) specs)
             @ [CHR 0x0A] @ ''}'')"

subsection \<open>The text of the CSV file\<close>

text \<open>
  \<^verbatim>\<open>csv.writer(f)\<close> with the default dialect: a field that holds a comma, a double
  quote, a carriage return or a line feed is written between double quotes with
  its quotes doubled, every other field as it is; the fields of a row are separated
  by commas and the row ends with carriage return and line feed. A row of one empty
  field is written as two quotes. The file is opened with \<^verbatim>\<open>newline=''\<close>, so the
  text is written as it is.
\<close>

definition csv_special :: "char \<Rightarrow> bool" where
  "csv_special c = (c = CHR '','' \<or> c = CHR 0x22 \<or> c = CHR 0x0D \<or> c = CHR 0x0A)"

definition csv_field :: "string \<Rightarrow> string" where
  "csv_field s =
     (if list_ex csv_special s
      then CHR 0x22 # concat (map (\<lambda>c. if c = CHR 0x22 then [c, c] else [c]) s) @ [CHR 0x22]
      else s)"

definition csv_writerow :: "string list \<Rightarrow> string" where
  "csv_writerow row =
     (if row = [[]] then [CHR 0x22, CHR 0x22] else join '','' (map csv_field row))
     @ [CHR 0x0D, CHR 0x0A]"

definition csv_text :: "'f host \<Rightarrow> 'f dict \<Rightarrow> string" where
  "csv_text h specs =
     csv_writerow [''Specification'', ''Value'']
     @ concat (map (\<lambda>(key, value). csv_writerow [key, py_str h value]) specs)"

subsection \<open>Paths and files\<close>

text \<open>
  A path is the list of its parts, as \<^verbatim>\<open>pathlib\<close> gives them: the root first for an
  absolute path. What \<^verbatim>\<open>save_results\<close> reads from and does to its environment:
  \<open>script_dir\<close> is the directory of the program, \<open>timestamp\<close> the text of
  \<^verbatim>\<open>strftime('%Y%m%d_%H%M%S')\<close>, \<open>answer\<close> the line \<^verbatim>\<open>input\<close> returns (\<open>None\<close>: it
  raises \<^verbatim>\<open>EOFError\<close>), \<open>joinpath\<close> is \<^verbatim>\<open>pathlib\<close>'s \<^verbatim>\<open>/\<close> of the platform,
  \<open>mkdir d\<close> tells whether \<^verbatim>\<open>d.mkdir(exist_ok=True)\<close> succeeds and \<open>write_text p t\<close>
  whether opening \<open>p\<close> for writing and writing \<open>t\<close> succeed.
\<close>

record report_env =
  script_dir :: "string list"
  timestamp :: string
  answer :: "string option"
  joinpath :: "string list \<Rightarrow> string \<Rightarrow> string list"
  mkdir :: "string list \<Rightarrow> bool"
  write_text :: "string list \<Rightarrow> string \<Rightarrow> bool"

text \<open>
  \<^verbatim>\<open>save_results\<close> returns the files it has written, as pairs of a path and a
  text, and what the call gives its caller: \<open>Inr\<close> the two paths it returns, \<open>Inl\<close>
  the exception it raises. The CSV file is written before the JSON file is opened.
\<close>

definition save_results ::
  "'f host \<Rightarrow> report_env \<Rightarrow> 'f dict \<Rightarrow>
     (string list \<times> string) list \<times> (error + string list \<times> string list)" where
  "save_results h env specs =
     (case answer env of
        None \<Rightarrow> ([], Inl EOFError)
      | Some line \<Rightarrow>
          (let name = filename_base line (timestamp env);
               reports_dir = joinpath env (script_dir env) ''reports''
           in if \<not> mkdir env reports_dir then ([], Inl FileError)
              else
                (let csv_file = joinpath env reports_dir (name @ ''.csv'')
                 in if \<not> write_text env csv_file (csv_text h specs) then ([], Inl FileError)
                    else
                      (let json_file = joinpath env reports_dir (name @ ''.json'')
                       in if \<not> write_text env json_file (json_dumps h specs)
                          then ([(csv_file, csv_text h specs)], Inl FileError)
                          else ([(csv_file, csv_text h specs), (json_file, json_dumps h specs)],
                                Inr (csv_file, json_file))))))"

text \<open>
  \<^verbatim>\<open>pathlib\<close>'s \<^verbatim>\<open>/\<close> on Linux and macOS: the right operand is split at the
  slashes, its empty parts and its parts \<^verbatim>\<open>.\<close> are dropped, and the rest is appended
  to the left operand; a right operand that starts with a slash is absolute and
  replaces the left operand (its root is \<^verbatim>\<open>//\<close> when it starts with exactly two
  slashes).
\<close>

fun split_on :: "char \<Rightarrow> string \<Rightarrow> string list" where
  "split_on sep [] = [[]]"
| "split_on sep (c # cs) =
     (if c = sep then [] # split_on sep cs
      else (case split_on sep cs of
              [] \<Rightarrow> [[c]]
            | p # ps \<Rightarrow> (c # p) # ps))"

definition posix_joinpath :: "string list \<Rightarrow> string \<Rightarrow> string list" where
  "posix_joinpath base rel =
     (let slashes = length (takeWhile (\<lambda>c. c = CHR ''/'') rel);
          parts = filter (\<lambda>p. p \<noteq> [] \<and> p \<noteq> ''.'') (split_on CHR ''/'' rel)
      in if slashes = 0 then base @ parts
         else if slashes = 2 then ''//'' # parts
         else ''/'' # parts)"

text \<open>
  A character that no flavour of \<^verbatim>\<open>pathlib\<close> reads as a separator or as the mark
  of a drive.
\<close>

definition plain_char :: "char \<Rightarrow> bool" where
  "plain_char c = (c \<noteq> CHR ''/'' \<and> c \<noteq> CHR 0x5C \<and> c \<noteq> CHR '':'')"

subsection \<open>Reading the reports back\<close>

text \<open>
  What a reader of the CSV file gets, by RFC 4180, the format the writer's dialect
  follows: rows end with carriage return and line feed, fields are separated by
  commas, a field that starts with a double quote runs to the next single double
  quote, and two double quotes inside it stand for one. The scanner keeps the
  field, the row and the rows read so far, each in reverse.
\<close>

datatype csv_state = RowStart | FieldStart | Unquoted | Quoted | QuoteSeen | AfterCR

fun csv_scan ::
  "csv_state \<Rightarrow> string \<Rightarrow> string list \<Rightarrow> string list list \<Rightarrow> string \<Rightarrow> string list list option" where
  "csv_scan st f row rows [] = (if st = RowStart then Some (rev rows) else None)"
| "csv_scan st f row rows (c # cs) =
     (case st of
        RowStart \<Rightarrow>
          if c = CHR 0x22 then csv_scan Quoted [] row rows cs
          else if c = CHR '','' then csv_scan FieldStart [] ([] # row) rows cs
          else if c = CHR 0x0D then csv_scan AfterCR [] row rows cs
          else if c = CHR 0x0A then None
          else csv_scan Unquoted [c] row rows cs
      | FieldStart \<Rightarrow>
          if c = CHR 0x22 then csv_scan Quoted [] row rows cs
          else if c = CHR '','' then csv_scan FieldStart [] ([] # row) rows cs
          else if c = CHR 0x0D then csv_scan AfterCR [] ([] # row) rows cs
          else if c = CHR 0x0A then None
          else csv_scan Unquoted [c] row rows cs
      | Unquoted \<Rightarrow>
          if c = CHR '','' then csv_scan FieldStart [] (rev f # row) rows cs
          else if c = CHR 0x0D then csv_scan AfterCR [] (rev f # row) rows cs
          else if c = CHR 0x22 \<or> c = CHR 0x0A then None
          else csv_scan Unquoted (c # f) row rows cs
      | Quoted \<Rightarrow>
          if c = CHR 0x22 then csv_scan QuoteSeen f row rows cs
          else csv_scan Quoted (c # f) row rows cs
      | QuoteSeen \<Rightarrow>
          if c = CHR 0x22 then csv_scan Quoted (c # f) row rows cs
          else if c = CHR '','' then csv_scan FieldStart [] (rev f # row) rows cs
          else if c = CHR 0x0D then csv_scan AfterCR [] (rev f # row) rows cs
          else None
      | AfterCR \<Rightarrow>
          if c = CHR 0x0A then csv_scan RowStart [] [] (rev row # rows) cs
          else None)"

definition csv_read :: "string \<Rightarrow> string list list option" where
  "csv_read s = csv_scan RowStart [] [] [] s"

text \<open>
  What the JSON file holds: a value is \<^verbatim>\<open>null\<close>, a string, a number, or one of the
  three names Python's encoder and decoder use for the floats that are not finite. A
  number follows the grammar of JSON and is kept as the decimal text that writes it.
\<close>

datatype jvalue = JNull | JString string | JNumber string | JNaN | JInfinity | JNegInfinity

definition hex_value :: "char \<Rightarrow> nat option" where
  "hex_value c =
     (let n = (of_char c :: nat) in
      if 48 \<le> n \<and> n \<le> 57 then Some (n - 48)
      else if 97 \<le> n \<and> n \<le> 102 then Some (n - 87)
      else if 65 \<le> n \<and> n \<le> 70 then Some (n - 55)
      else None)"

definition hex4 :: "char \<Rightarrow> char \<Rightarrow> char \<Rightarrow> char \<Rightarrow> char option" where
  "hex4 a b c d =
     (case (hex_value a, hex_value b, hex_value c, hex_value d) of
        (Some w, Some x, Some y, Some z) \<Rightarrow>
          if w = 0 \<and> x = 0 then Some (char_of (16 * y + z)) else None
      | _ \<Rightarrow> None)"

definition json_unescape :: "char \<Rightarrow> char option" where
  "json_unescape e =
     (if e = CHR 0x22 then Some (CHR 0x22)
      else if e = CHR 0x5C then Some (CHR 0x5C)
      else if e = CHR ''/'' then Some (CHR ''/'')
      else if e = CHR ''b'' then Some (CHR 0x08)
      else if e = CHR ''f'' then Some (CHR 0x0C)
      else if e = CHR ''n'' then Some (CHR 0x0A)
      else if e = CHR ''r'' then Some (CHR 0x0D)
      else if e = CHR ''t'' then Some (CHR 0x09)
      else None)"

text \<open>
  The characters of a string whose opening quote has been read, and what follows
  its closing quote. An escape \<^verbatim>\<open>\uxxxx\<close> beyond the characters of the model is
  refused.
\<close>

fun json_unquote :: "string \<Rightarrow> (string \<times> string) option" where
  "json_unquote [] = None"
| "json_unquote (c # cs) =
     (if c = CHR 0x22 then Some ([], cs)
      else if c = CHR 0x5C then
        (case cs of
           [] \<Rightarrow> None
         | e # cs1 \<Rightarrow>
             if e = CHR ''u'' then
               (case cs1 of
                  a # b # x # y # cs2 \<Rightarrow>
                    (case hex4 a b x y of
                       None \<Rightarrow> None
                     | Some ch \<Rightarrow>
                         (case json_unquote cs2 of
                            None \<Rightarrow> None
                          | Some (s, rest) \<Rightarrow> Some (ch # s, rest)))
                | _ \<Rightarrow> None)
             else
               (case json_unescape e of
                  None \<Rightarrow> None
                | Some ch \<Rightarrow>
                    (case json_unquote cs1 of
                       None \<Rightarrow> None
                     | Some (s, rest) \<Rightarrow> Some (ch # s, rest))))
      else if (of_char c :: nat) < 32 then None
      else
        (case json_unquote cs of
           None \<Rightarrow> None
         | Some (s, rest) \<Rightarrow> Some (c # s, rest)))"

datatype number_state = NStart | NMinus | NZero | NInt | NDot | NFrac | NE | NSign | NExp

fun number_scan :: "number_state \<Rightarrow> string \<Rightarrow> bool" where
  "number_scan st [] = (st = NZero \<or> st = NInt \<or> st = NFrac \<or> st = NExp)"
| "number_scan st (c # cs) =
     (case st of
        NStart \<Rightarrow>
          if c = CHR ''-'' then number_scan NMinus cs
          else if c = CHR ''0'' then number_scan NZero cs
          else if isdigit c then number_scan NInt cs
          else False
      | NMinus \<Rightarrow>
          if c = CHR ''0'' then number_scan NZero cs
          else if isdigit c then number_scan NInt cs
          else False
      | NZero \<Rightarrow>
          if c = CHR ''.'' then number_scan NDot cs
          else if c = CHR ''e'' \<or> c = CHR ''E'' then number_scan NE cs
          else False
      | NInt \<Rightarrow>
          if isdigit c then number_scan NInt cs
          else if c = CHR ''.'' then number_scan NDot cs
          else if c = CHR ''e'' \<or> c = CHR ''E'' then number_scan NE cs
          else False
      | NDot \<Rightarrow> if isdigit c then number_scan NFrac cs else False
      | NFrac \<Rightarrow>
          if isdigit c then number_scan NFrac cs
          else if c = CHR ''e'' \<or> c = CHR ''E'' then number_scan NE cs
          else False
      | NE \<Rightarrow>
          if c = CHR ''+'' \<or> c = CHR ''-'' then number_scan NSign cs
          else if isdigit c then number_scan NExp cs
          else False
      | NSign \<Rightarrow> if isdigit c then number_scan NExp cs else False
      | NExp \<Rightarrow> if isdigit c then number_scan NExp cs else False)"

definition json_number :: "string \<Rightarrow> bool" where
  "json_number s = number_scan NStart s"

definition json_ws :: "char \<Rightarrow> bool" where
  "json_ws c = (c = CHR '' '' \<or> c = CHR 0x0A \<or> c = CHR 0x0D \<or> c = CHR 0x09)"

definition json_delim :: "char \<Rightarrow> bool" where
  "json_delim c = (json_ws c \<or> c = CHR '','' \<or> c = CHR ''}'')"

definition skip_ws :: "string \<Rightarrow> string" where
  "skip_ws s = dropWhile json_ws s"

definition json_read_value :: "string \<Rightarrow> (jvalue \<times> string) option" where
  "json_read_value s =
     (case s of
        [] \<Rightarrow> None
      | c # cs \<Rightarrow>
          if c = CHR 0x22 then
            (case json_unquote cs of
               None \<Rightarrow> None
             | Some (t, rest) \<Rightarrow> Some (JString t, rest))
          else
            (let tok = takeWhile (\<lambda>c. \<not> json_delim c) s;
                 rest = dropWhile (\<lambda>c. \<not> json_delim c) s
             in if tok = ''null'' then Some (JNull, rest)
                else if tok = ''NaN'' then Some (JNaN, rest)
                else if tok = ''Infinity'' then Some (JInfinity, rest)
                else if tok = ''-Infinity'' then Some (JNegInfinity, rest)
                else if json_number tok then Some (JNumber tok, rest)
                else None))"

text \<open>
  The members of an object from the opening quote of a key on; the fuel bounds the
  number of members.
\<close>

fun json_read_members :: "nat \<Rightarrow> string \<Rightarrow> (string \<times> jvalue) list option" where
  "json_read_members 0 s = None"
| "json_read_members (Suc n) s =
     (case s of
        [] \<Rightarrow> None
      | q # cs \<Rightarrow>
          if q \<noteq> CHR 0x22 then None
          else
            (case json_unquote cs of
               None \<Rightarrow> None
             | Some (k, r1) \<Rightarrow>
                 (case skip_ws r1 of
                    [] \<Rightarrow> None
                  | colon # r2 \<Rightarrow>
                      if colon \<noteq> CHR '':'' then None
                      else
                        (case json_read_value (skip_ws r2) of
                           None \<Rightarrow> None
                         | Some (v, r3) \<Rightarrow>
                             (case skip_ws r3 of
                                [] \<Rightarrow> None
                              | d # r4 \<Rightarrow>
                                  if d = CHR '','' then
                                    (case json_read_members n (skip_ws r4) of
                                       None \<Rightarrow> None
                                     | Some ms \<Rightarrow> Some ((k, v) # ms))
                                  else if d = CHR ''}'' \<and> skip_ws r4 = [] then Some [(k, v)]
                                  else None)))))"

definition json_load :: "string \<Rightarrow> (string \<times> jvalue) list option" where
  "json_load s =
     (case skip_ws s of
        [] \<Rightarrow> None
      | c # cs \<Rightarrow>
          if c \<noteq> CHR ''{'' then None
          else
            (case skip_ws cs of
               [] \<Rightarrow> None
             | d # ds \<Rightarrow>
                 if d = CHR ''}'' then (if skip_ws ds = [] then Some [] else None)
                 else json_read_members (length s) (d # ds)))"

text \<open>
  The JSON value the encoder writes for a value of the record.
\<close>

fun jvalue_of :: "'f host \<Rightarrow> 'f pyval \<Rightarrow> jvalue" where
  "jvalue_of h PNone = JNull"
| "jvalue_of h (PStr s) = JString s"
| "jvalue_of h (PInt i) = JNumber (str_int i)"
| "jvalue_of h (PFloat x) =
     (case float_kind h x of
        Finite \<Rightarrow> JNumber (float_str h x)
      | NaN \<Rightarrow> JNaN
      | PosInf \<Rightarrow> JInfinity
      | NegInf \<Rightarrow> JNegInfinity)"

text \<open>
  The string representation of a value of the JSON file, which the specification
  compares with the field of the CSV file: a string is its characters, a number is
  its decimal text, and \<^verbatim>\<open>null\<close> and the three floats that are not finite are what
  Python prints for them.
\<close>

fun spec_string_representation :: "jvalue \<Rightarrow> string" where
  "spec_string_representation JNull = ''None''"
| "spec_string_representation (JString s) = s"
| "spec_string_representation (JNumber t) = t"
| "spec_string_representation JNaN = ''nan''"
| "spec_string_representation JInfinity = ''inf''"
| "spec_string_representation JNegInfinity = ''-inf''"

text \<open>
  What Python's floats satisfy, for a value of the record: the text of a finite
  float is a JSON number, and the three other floats print as \<^verbatim>\<open>nan\<close>, \<^verbatim>\<open>inf\<close>
  and \<^verbatim>\<open>-inf\<close>.
\<close>

fun float_text_ok :: "'f host \<Rightarrow> 'f pyval \<Rightarrow> bool" where
  "float_text_ok h (PFloat x) =
     (case float_kind h x of
        Finite \<Rightarrow> json_number (float_str h x)
      | NaN \<Rightarrow> float_str h x = ''nan''
      | PosInf \<Rightarrow> float_str h x = ''inf''
      | NegInf \<Rightarrow> float_str h x = ''-inf'')"
| "float_text_ok h v = True"

section \<open>The keys of merged descriptors\<close>

text \<open>
  The three keys the merge loop writes for the dictionary with 1-based index \<open>j\<close>, and
  the keys of \<open>n\<close> dictionaries merged after index \<open>i\<close>, in the order they are written.
\<close>

definition gpu_triple :: "nat \<Rightarrow> string list" where
  "gpu_triple j =
     [''GPU_'' @ str_nat j @ ''_Name'',
      ''GPU_'' @ str_nat j @ ''_Memory'',
      ''GPU_'' @ str_nat j @ ''_Driver'']"

definition gpu_keys :: "nat \<Rightarrow> nat \<Rightarrow> string list" where
  "gpu_keys i n = concat (map gpu_triple [i + 1 ..< i + 1 + n])"

section \<open>A host for concrete runs\<close>

text \<open>
  A host whose floats are kept symbolic: the pair \<open>(n, k)\<close> stands for
  \<^verbatim>\<open>round(n / 1024**k, 2)\<close>. The theorems below hold for every host; this one
  instantiates them.
\<close>

definition test_host ::
  "string \<Rightarrow> (string \<Rightarrow> proc_error + string) \<Rightarrow> wmi_module \<Rightarrow> (int \<times> nat) host" where
  "test_host sys run w =
     \<lparr> system = sys,
       platform_platform = ''test-platform'',
       platform_node = ''box'',
       platform_version = ''1'',
       platform_machine = ''x86_64'',
       scan_date = ''2024-01-01 00:00:00'',
       check_output = run,
       wmi = w,
       int_max_str_digits = 4300,
       round_div = (\<lambda>n k. Some (n, k)),
       round_gb = (\<lambda>v. case v of
                      WNone \<Rightarrow> None
                    | WStr s \<Rightarrow> (case py_int 4300 s of None \<Rightarrow> None | Some i \<Rightarrow> Some (i, 3))
                    | WInt i \<Rightarrow> Some (i, 3)),
       float_str = (\<lambda>(n, k). str_int n @ ''/1024^'' @ str_nat k),
       float_kind = (\<lambda>x. Finite) \<rparr>"

definition no_commands :: "string \<Rightarrow> proc_error + string" where
  "no_commands command = Inl (CalledProcessError 127)"


text \<open>
  Command runners: one that answers every command with the same text, one where
  only the PCI listing succeeds, one where only the NVIDIA tool succeeds.
\<close>

definition every_command :: "string \<Rightarrow> string \<Rightarrow> proc_error + string" where
  "every_command out command = Inr out"

definition lspci_only :: "string \<Rightarrow> proc_error + string" where
  "lspci_only command =
     (if command = ''lspci | grep -E 'vga|3d|2d'' @ apostrophe
      then Inr ''00:02.0 VGA compatible controller: Intel Corporation UHD Graphics 620''
      else Inl (CalledProcessError 1))"

definition nvidia_only :: "string \<Rightarrow> proc_error + string" where
  "nvidia_only command =
     (if command = ''nvidia-smi --query-gpu=gpu_name,memory.total,driver_version --format=csv,noheader''
      then Inr ''NVIDIA GeForce RTX 3080, 10240 MiB, 535.54''
      else Inl (CalledProcessError 1))"

text \<open>
  A management interface whose every query succeeds, and a disk drive without a
  medium, whose size is \<^verbatim>\<open>None\<close>.
\<close>

definition office_pc :: wmi_conn where
  "office_pc =
     \<lparr> Win32_ComputerSystem =
         Some [\<lparr> cs_Manufacturer = WStr ''Dell Inc.'', cs_Model = WStr ''OptiPlex 7090'',
                 cs_TotalPhysicalMemory = WStr ''17179869184'' \<rparr>],
       Win32_Processor = Some [\<lparr> cpu_Name = WStr ''Intel(R) Core(TM) i7-11700'' \<rparr>],
       Win32_BIOS = Some [\<lparr> bios_SerialNumber = WStr ''ABC1234'' \<rparr>],
       Win32_OperatingSystem = Some [()],
       Win32_DiskDrive =
         Some [\<lparr> disk_Model = WStr ''Samsung SSD 970'', disk_Size = WStr ''512110190592'' \<rparr>],
       Win32_VideoController =
         Some [\<lparr> gpu_Name = WStr ''Intel(R) UHD Graphics 750'', gpu_AdapterRAM = WInt 1073741824,
                 gpu_DriverVersion = WStr ''31.0.101.2125'' \<rparr>] \<rparr>"

definition card_reader :: disk_drive where
  "card_reader = \<lparr> disk_Model = WStr ''Generic USB SD Reader'', disk_Size = WNone \<rparr>"

text \<open>
  A program installed in \<^verbatim>\<open>/opt/inventory\<close> on a POSIX host: the directory of the
  reports can be made, and a file can be written when its directory is the directory
  of the reports.
\<close>

definition posix_env :: "string option \<Rightarrow> report_env" where
  "posix_env line =
     \<lparr> script_dir = [''/'', ''opt'', ''inventory''],
       timestamp = ''20240101_120000'',
       answer = line,
       joinpath = posix_joinpath,
       mkdir = (\<lambda>d. True),
       write_text = (\<lambda>p t. butlast p = [''/'', ''opt'', ''inventory'', ''reports'']) \<rparr>"

text \<open>
  The first host with its floats printed in decimal: the text of the pair \<open>(n, k)\<close>
  is the quotient of \<open>n\<close> by \<open>1024 ^ k\<close> rounded to hundredths, with one decimal at
  least, as \<^verbatim>\<open>repr\<close> prints a float that \<^verbatim>\<open>round(x, 2)\<close> returned.
\<close>

definition decimal_str :: "int \<times> nat \<Rightarrow> string" where
  "decimal_str x =
     (case x of (n, k) \<Rightarrow>
        (let c = (200 * n div 1024 ^ k + 1) div 2;
             a = nat (abs c);
             r = a mod 100
         in (if c < 0 then ''-'' else []) @ str_nat (a div 100) @ ''.'' @
            (if r mod 10 = 0 then str_nat (r div 10)
             else str_nat (r div 10) @ str_nat (r mod 10))))"

definition decimal_host ::
  "string \<Rightarrow> (string \<Rightarrow> proc_error + string) \<Rightarrow> wmi_module \<Rightarrow> (int \<times> nat) host" where
  "decimal_host sys run w = (test_host sys run w) \<lparr> float_str := decimal_str \<rparr>"

definition office_record :: "(int \<times> nat) dict" where
  "office_record =
     [(''OS'', PStr ''Windows''),
      (''CPU'', PStr (''Intel i7, 2.6 '' @ [CHR 0x22] @ ''GHz'' @ [CHR 0x22])),
      (''RAM_GB'', PFloat (17179869184, 3)),
      (''Serial_Number'', PNone),
      (''GPU_1_Memory'', PInt 4293918720)]"

section \<open>Facts about text\<close>

lemma strip_decomposition:
  "\<exists>l r. s = l @ strip s @ r \<and> list_all isspace l \<and> list_all isspace r"
proof -
  define t where "t = dropWhile isspace s"
  have s: "s = takeWhile isspace s @ t"
    by (simp add: t_def)
  have "t = rev (rev t)"
    by simp
  also have "\<dots> = rev (takeWhile isspace (rev t) @ dropWhile isspace (rev t))"
    by (simp only: takeWhile_dropWhile_id)
  also have "\<dots> = rev (dropWhile isspace (rev t)) @ rev (takeWhile isspace (rev t))"
    by (simp only: rev_append)
  finally have t: "t = strip s @ rev (takeWhile isspace (rev t))"
    by (simp only: strip_def t_def)
  have l: "list_all isspace (takeWhile isspace s)"
    by (simp add: list_all_iff) (meson set_takeWhileD)
  have r: "list_all isspace (rev (takeWhile isspace (rev t)))"
    by (simp add: list_all_iff) (meson set_takeWhileD)
  from s t have "s = takeWhile isspace s @ strip s @ rev (takeWhile isspace (rev t))"
    by simp
  with l r show ?thesis by blast
qed

lemma strip_hd: "strip s \<noteq> [] \<Longrightarrow> \<not> isspace (hd (strip s))"
proof -
  assume ne: "strip s \<noteq> []"
  define t where "t = dropWhile isspace s"
  define u where "u = dropWhile isspace (rev t)"
  have st: "strip s = rev u" by (simp add: strip_def t_def u_def)
  with ne have une: "u \<noteq> []" by simp
  have tne: "t \<noteq> []" using une by (auto simp: u_def)
  have "rev t = takeWhile isspace (rev t) @ u" by (simp add: u_def)
  then have "t = rev u @ rev (takeWhile isspace (rev t))"
    by (metis rev_append rev_rev_ident)
  then have "hd t = hd (rev u)" using une by (metis hd_append2 rev_is_Nil_conv)
  moreover have "\<not> isspace (hd t)" using tne unfolding t_def by (metis hd_dropWhile)
  ultimately show ?thesis by (simp add: st)
qed

lemma strip_last: "strip s \<noteq> [] \<Longrightarrow> \<not> isspace (last (strip s))"
proof -
  assume ne: "strip s \<noteq> []"
  define u where "u = dropWhile isspace (rev (dropWhile isspace s))"
  have st: "strip s = rev u" by (simp add: strip_def u_def)
  with ne have une: "u \<noteq> []" by simp
  then have "\<not> isspace (hd u)" unfolding u_def by (metis hd_dropWhile)
  then show ?thesis using une by (simp add: st last_rev)
qed

lemma strip_blank: "list_all isspace s \<Longrightarrow> strip s = []"
proof -
  assume "list_all isspace s"
  then have d: "dropWhile isspace s = []"
    by (simp add: dropWhile_eq_Nil_conv list_all_iff)
  show ?thesis
    unfolding strip_def d by simp
qed

lemma strip_idem: "strip (strip s) = strip s"
proof (cases "strip s = []")
  case True
  have "strip [] = []" by (simp add: strip_def)
  with True show ?thesis by simp
next
  case False
  define t where "t = strip s"
  from False have a: "\<not> isspace (hd t)" and b: "\<not> isspace (last t)" and ne: "t \<noteq> []"
    using strip_hd [of s] strip_last [of s] by (simp_all add: t_def)
  from a ne have 1: "dropWhile isspace t = t"
    by (cases t) simp_all
  from b ne have 2: "dropWhile isspace (rev t) = rev t"
    by (cases "rev t") (simp_all add: last_rev [symmetric] hd_rev)
  show ?thesis
    unfolding t_def [symmetric] by (simp add: strip_def 1 2)
qed

lemma py_int_strip: "py_int limit (strip s) = py_int limit s"
  by (simp add: py_int_def strip_idem)

lemma not_available_no_int: "py_int limit ''Not available'' = None"
  by (simp add: py_int_def strip_def isspace_def digits_ok.simps isdigit_def Let_def)

section \<open>Facts about dictionaries\<close>

lemma map_of_setitem: "map_of (setitem k v d) = (map_of d)(k \<mapsto> v)"
  by (induction d) (auto simp: fun_eq_iff)

lemma keys_setitem:
  "keys (setitem k v d) = (if k \<in> set (keys d) then keys d else keys d @ [k])"
  by (induction d) (force simp: keys_def)+

lemma distinct_keys_setitem: "distinct (keys d) \<Longrightarrow> distinct (keys (setitem k v d))"
  by (simp add: keys_setitem)

section \<open>Decimal numerals\<close>

lemma str_nat_1: "str_nat (Suc 0) = ''1''"
  by (simp add: str_nat.simps)

lemma digit_char:
  assumes "k < 10"
  shows "isdigit (''0123456789'' ! k) \<and> digit_value (''0123456789'' ! k) = int k"
proof -
  from assms have "k = 0 \<or> k = 1 \<or> k = 2 \<or> k = 3 \<or> k = 4 \<or> k = 5 \<or> k = 6 \<or> k = 7 \<or> k = 8 \<or> k = 9"
    by arith
  then show ?thesis
    by (elim disjE) (simp_all add: isdigit_def digit_value_def)
qed

lemma digits_value_str_nat: "digits_value (str_nat n) = int n"
proof (induction n rule: str_nat.induct)
  case (1 n)
  show ?case
  proof (cases "n < 10")
    case True
    then show ?thesis
      using digit_char [of n] by (subst str_nat.simps) (simp add: digits_value_def)
  next
    case False
    with 1 have ih: "digits_value (str_nat (n div 10)) = int (n div 10)"
      by simp
    have d: "isdigit (''0123456789'' ! (n mod 10))"
      and v: "digit_value (''0123456789'' ! (n mod 10)) = int (n mod 10)"
      using digit_char [of "n mod 10"] by simp_all
    have "digits_value (str_nat n) =
          10 * digits_value (str_nat (n div 10)) + digit_value (''0123456789'' ! (n mod 10))"
      using False d by (subst str_nat.simps) (simp add: digits_value_def)
    also have "\<dots> = 10 * int (n div 10) + int (n mod 10)"
      by (simp only: ih v)
    also have "\<dots> = int n"
      by (simp add: zdiv_int zmod_int)
    finally show ?thesis .
  qed
qed

lemma str_nat_inject: "str_nat m = str_nat n \<Longrightarrow> m = n"
proof -
  assume "str_nat m = str_nat n"
  then have "digits_value (str_nat m) = digits_value (str_nat n)"
    by simp
  then show "m = n"
    by (simp add: digits_value_str_nat)
qed

section \<open>The keys of the merge loop\<close>

lemma suffix_clash:
  "a @ ''_Name'' \<noteq> b @ ''_Memory''" "a @ ''_Name'' \<noteq> b @ ''_Driver''"
  "a @ ''_Memory'' \<noteq> b @ ''_Driver''" "a @ ''_Memory'' \<noteq> b @ ''_Name''"
  "a @ ''_Driver'' \<noteq> b @ ''_Name''" "a @ ''_Driver'' \<noteq> b @ ''_Memory''"
proof -
  have l: "\<And>x y :: string. last x \<noteq> last y \<Longrightarrow> x \<noteq> y"
    by auto
  show "a @ ''_Name'' \<noteq> b @ ''_Memory''" by (rule l) simp
  show "a @ ''_Name'' \<noteq> b @ ''_Driver''" by (rule l) simp
  show "a @ ''_Memory'' \<noteq> b @ ''_Driver''" by (rule l) simp
  show "a @ ''_Memory'' \<noteq> b @ ''_Name''" by (rule l) simp
  show "a @ ''_Driver'' \<noteq> b @ ''_Name''" by (rule l) simp
  show "a @ ''_Driver'' \<noteq> b @ ''_Memory''" by (rule l) simp
qed

lemma gpu_triple_index:
  "k \<in> set (gpu_triple i) \<Longrightarrow> k \<in> set (gpu_triple j) \<Longrightarrow> i = j"
  by (auto simp: gpu_triple_def suffix_clash dest: str_nat_inject)

lemma keys_setitem_triple:
  assumes "set (gpu_triple j) \<inter> set (keys specs) = {}"
  shows "keys (setitem (''GPU_'' @ str_nat j @ ''_Driver'') c
           (setitem (''GPU_'' @ str_nat j @ ''_Memory'') b
              (setitem (''GPU_'' @ str_nat j @ ''_Name'') a specs))) = keys specs @ gpu_triple j"
  using assms by (simp add: keys_setitem gpu_triple_def suffix_clash)

lemma gpu_keys_Suc: "gpu_keys i (Suc n) = gpu_triple (i + 1) @ gpu_keys (i + 1) n"
proof -
  have "[i + 1 ..< i + 1 + Suc n] = (i + 1) # [i + 1 + 1 ..< i + 1 + 1 + n]"
    by (subst upt_conv_Cons) simp_all
  then show ?thesis
    by (simp add: gpu_keys_def)
qed

lemma keys_merge_gpus:
  assumes "\<forall>g\<in>set gpus. \<exists>d. g = Dict d"
    and "\<forall>j>i. set (gpu_triple j) \<inter> set (keys specs) = {}"
  shows "keys (merge_gpus h i gpus specs) = keys specs @ gpu_keys i (length gpus)"
  using assms
proof (induction gpus arbitrary: i specs)
  case Nil
  then show ?case by (simp add: gpu_keys_def)
next
  case (Cons g rest)
  from Cons.prems(1) obtain d where g: "g = Dict d" by auto
  let ?specs = "setitem (''GPU_'' @ str_nat (i + 1) @ ''_Driver'')
                  (dict_get d ''Driver_Version'' (PStr ''Unknown''))
                  (setitem (''GPU_'' @ str_nat (i + 1) @ ''_Memory'')
                     (dict_get d ''Memory'' (PStr ''Unknown''))
                     (setitem (''GPU_'' @ str_nat (i + 1) @ ''_Name'')
                        (dict_get d ''Name'' (PStr ''Unknown'')) specs))"
  from Cons.prems(2) have fresh: "set (gpu_triple (i + 1)) \<inter> set (keys specs) = {}"
    by simp
  have k: "keys ?specs = keys specs @ gpu_triple (i + 1)"
    by (rule keys_setitem_triple [OF fresh])
  have later: "\<forall>j>i + 1. set (gpu_triple j) \<inter> set (keys ?specs) = {}"
  proof (intro allI impI)
    fix j assume j: "i + 1 < j"
    then have "set (gpu_triple j) \<inter> set (keys specs) = {}"
      using Cons.prems(2) by simp
    moreover have "set (gpu_triple j) \<inter> set (gpu_triple (i + 1)) = {}"
      using j gpu_triple_index [of _ j "i + 1"] by auto
    ultimately show "set (gpu_triple j) \<inter> set (keys ?specs) = {}"
      unfolding k by auto
  qed
  from Cons.prems(1) have rest: "\<forall>g\<in>set rest. \<exists>d. g = Dict d"
    by simp
  have "keys (merge_gpus h i (g # rest) specs) = keys (merge_gpus h (i + 1) rest ?specs)"
    by (simp add: g)
  also have "\<dots> = keys ?specs @ gpu_keys (i + 1) (length rest)"
    by (rule Cons.IH [OF rest later])
  also have "\<dots> = keys specs @ gpu_keys i (length (g # rest))"
    unfolding k by (simp add: gpu_keys_Suc)
  finally show ?case .
qed

section \<open>The pass on each platform\<close>

lemma common_fields_empty:
  "common_fields h [] =
     [(''OS'', PStr (platform_platform h)), (''Hostname'', PStr (platform_node h)),
      (''OS_Version'', PStr (platform_version h)), (''Architecture'', PStr (platform_machine h)),
      (''Scan_Date'', PStr (scan_date h))]"
  by (simp add: common_fields_def)

lemma video_controllers_dicts:
  "video_controllers h cs = Some gpus \<Longrightarrow> (\<forall>g\<in>set gpus. \<exists>d. g = Dict d) \<and> length gpus = length cs"
  by (induction cs arbitrary: gpus) (auto split: if_splits option.splits)

lemma get_gpu_info_dicts:
  "get_gpu_info h = Some gpus \<Longrightarrow> \<forall>g\<in>set gpus. \<exists>d. g = Dict d"
  by (auto simp: get_gpu_info_def Let_def
      split: if_splits wmi_module.splits option.splits dest: video_controllers_dicts)

lemma gpu_wrapper:
  assumes "system h = ''Linux'' \<or> system h = ''Darwin'' \<or> (system h = ''Windows'' \<and> wmi h = NoModule)"
  shows "\<exists>text. get_gpu_info h = Some [Dict [(''Name'', PStr text)]]"
  using assms by (auto simp: get_gpu_info_def Let_def)

lemma linux_pass:
  assumes "system h = ''Linux''"
  shows "\<exists>cpu ram storage serial model maker gpu.
           collect_info h [] =
             (let specs =
                [(''OS'', PStr (platform_platform h)), (''Hostname'', PStr (platform_node h)),
              (''OS_Version'', PStr (platform_version h)),
              (''Architecture'', PStr (platform_machine h)),
              (''Scan_Date'', PStr (scan_date h)),
                 (''CPU'', PStr cpu), (''RAM_GB'', ram), (''Storage'', PStr storage),
                 (''Serial_Number'', PStr serial), (''Model'', PStr model),
                 (''Manufacturer'', PStr maker), (''GPU_1_Name'', PStr gpu),
                 (''GPU_1_Memory'', PStr ''Unknown''), (''GPU_1_Driver'', PStr ''Unknown'')]
              in (specs, Inr specs)) \<and>
           get_gpu_info h = Some [Dict [(''Name'', PStr gpu)]] \<and>
           (ram = PStr ''Unknown'' \<or> (\<exists>x. ram = PFloat x))"
proof -
  from assms obtain t where g: "get_gpu_info h = Some [Dict [(''Name'', PStr t)]]"
    using gpu_wrapper [of h] by blast
  have p: "platform_info h (common_fields h []) = (get_linux_info h (common_fields h []), None)"
    by (simp add: platform_info_def assms)
  show ?thesis
    unfolding collect_info_def p
    by (simp add: g dict_get_def str_nat_1 get_linux_info_def common_fields_empty Let_def
          split: option.splits)
qed

lemma darwin_pass:
  assumes "system h = ''Darwin''"
  shows "\<exists>serial model cpu ram storage gpu.
           collect_info h [] =
             (let specs =
                [(''OS'', PStr (platform_platform h)), (''Hostname'', PStr (platform_node h)),
              (''OS_Version'', PStr (platform_version h)),
              (''Architecture'', PStr (platform_machine h)),
              (''Scan_Date'', PStr (scan_date h)),
                 (''Serial_Number'', PStr serial), (''Model'', PStr model),
                 (''CPU'', PStr cpu), (''RAM_GB'', ram), (''Storage'', PStr storage),
                 (''GPU_1_Name'', PStr gpu),
                 (''GPU_1_Memory'', PStr ''Unknown''), (''GPU_1_Driver'', PStr ''Unknown'')]
              in (specs, Inr specs)) \<and>
           get_gpu_info h = Some [Dict [(''Name'', PStr gpu)]] \<and>
           (ram = PStr ''Unknown'' \<or> (\<exists>x. ram = PFloat x))"
proof -
  from assms obtain t where g: "get_gpu_info h = Some [Dict [(''Name'', PStr t)]]"
    using gpu_wrapper [of h] by blast
  have p: "platform_info h (common_fields h []) = (get_mac_info h (common_fields h []), None)"
    by (simp add: platform_info_def assms)
  show ?thesis
    unfolding collect_info_def p
    by (simp add: g dict_get_def str_nat_1 get_mac_info_def common_fields_empty Let_def
          split: option.splits)
qed

lemma windows_fallback_pass:
  assumes "system h = ''Windows''" and "wmi h = NoModule"
  shows "\<exists>serial model cpu ram storage gpu.
           collect_info h [] =
             (let specs =
                [(''OS'', PStr (platform_platform h)), (''Hostname'', PStr (platform_node h)),
              (''OS_Version'', PStr (platform_version h)),
              (''Architecture'', PStr (platform_machine h)),
              (''Scan_Date'', PStr (scan_date h)),
                 (''Serial_Number'', PStr serial), (''Model'', PStr model),
                 (''CPU'', PStr cpu), (''RAM_GB'', PStr ram), (''Storage'', PStr storage),
                 (''GPU_1_Name'', PStr gpu),
                 (''GPU_1_Memory'', PStr ''Unknown''), (''GPU_1_Driver'', PStr ''Unknown'')]
              in (specs, Inr specs)) \<and>
           get_gpu_info h = Some [Dict [(''Name'', PStr gpu)]]"
proof -
  from assms obtain t where g: "get_gpu_info h = Some [Dict [(''Name'', PStr t)]]"
    using gpu_wrapper [of h] by blast
  have p: "platform_info h (common_fields h []) = get_windows_info h (common_fields h [])"
    by (simp add: platform_info_def assms)
  show ?thesis
    unfolding collect_info_def p
    by (simp add: g dict_get_def str_nat_1 get_windows_info_def assms common_fields_empty Let_def)
qed

lemma windows_structured_keys:
  assumes "wmi h \<noteq> NoModule" and "get_windows_info h (common_fields h []) = (specs, None)"
  shows "keys specs =
           [''OS'', ''Hostname'', ''OS_Version'', ''Architecture'', ''Scan_Date'',
            ''Serial_Number'', ''Manufacturer'', ''Model'', ''CPU'', ''RAM_GB'', ''Storage'']"
  using assms
  by (auto simp: get_windows_info_def common_fields_empty Let_def keys_def
      split: wmi_module.splits sum.splits option.splits)

lemma windows_gpu_some:
  "system h = ''Windows'' \<Longrightarrow> \<exists>gpus. get_gpu_info h = Some gpus"
  by (simp add: get_gpu_info_def Let_def split: wmi_module.splits option.splits)

lemma windows_structured_pass:
  assumes "system h = ''Windows''" and "wmi h \<noteq> NoModule"
    and "snd (get_windows_info h (common_fields h [])) = None"
  shows "\<exists>specs gpus. collect_info h [] = (specs, Inr specs) \<and> get_gpu_info h = Some gpus \<and>
           keys specs =
             [''OS'', ''Hostname'', ''OS_Version'', ''Architecture'', ''Scan_Date'',
              ''Serial_Number'', ''Manufacturer'', ''Model'', ''CPU'', ''RAM_GB'', ''Storage'']
             @ gpu_keys 0 (length gpus)"
proof -
  from assms(3) obtain specs where w: "get_windows_info h (common_fields h []) = (specs, None)"
    by (cases "get_windows_info h (common_fields h [])") simp
  have k: "keys specs =
           [''OS'', ''Hostname'', ''OS_Version'', ''Architecture'', ''Scan_Date'',
            ''Serial_Number'', ''Manufacturer'', ''Model'', ''CPU'', ''RAM_GB'', ''Storage'']"
    by (rule windows_structured_keys [OF assms(2) w])
  from assms(1) obtain gpus where g: "get_gpu_info h = Some gpus"
    using windows_gpu_some by blast
  have p: "platform_info h (common_fields h []) = (specs, None)"
    by (simp add: platform_info_def assms(1) w)
  have c: "collect_info h [] = (merge_gpus h 0 gpus specs, Inr (merge_gpus h 0 gpus specs))"
    unfolding collect_info_def p g by (simp add: Let_def)
  have fresh: "\<forall>j>0. set (gpu_triple j) \<inter> set (keys specs) = {}"
    unfolding k by (simp add: gpu_triple_def)
  have "keys (merge_gpus h 0 gpus specs) = keys specs @ gpu_keys 0 (length gpus)"
    by (rule keys_merge_gpus [OF get_gpu_info_dicts [OF g] fresh])
  with c g k show ?thesis by simp
qed

lemma all_fail_sentinel:
  "\<forall>command. \<exists>e. check_output h command = Inl e \<Longrightarrow>
   get_command_output h command = ''Not available''"
proof -
  assume "\<forall>command. \<exists>e. check_output h command = Inl e"
  then obtain e where "check_output h command = Inl e" by blast
  then show ?thesis by (simp add: get_command_output_def)
qed

lemma ram_value:
  "(case py_int limit (get_command_output h command) of
      None \<Rightarrow> PStr ''Unknown''
    | Some n \<Rightarrow> f n) =
   (case check_output h command of
      Inl e \<Rightarrow> PStr ''Unknown''
    | Inr out \<Rightarrow> (case py_int limit out of None \<Rightarrow> PStr ''Unknown'' | Some n \<Rightarrow> f n))"
  by (simp add: get_command_output_def py_int_strip not_available_no_int split: sum.splits)

section \<open>Unrecognized platforms\<close>

lemma unrecognized_platform:
  assumes "system h \<noteq> ''Linux''" and "system h \<noteq> ''Darwin''" and "system h \<noteq> ''Windows''"
  shows "collect_info h [] = (common_fields h [], Inl TypeError)"
  using assms by (simp add: collect_info_def platform_info_def get_gpu_info_def)

text \<open>
  Claim C1. On a host whose platform identifier is \<open>FreeBSD\<close> the pass writes the five
  common fields and nothing else, and then raises: \<^verbatim>\<open>get_gpu_info\<close> takes no branch
  and returns \<^verbatim>\<open>None\<close>, which the merge loop cannot iterate. The claim says the call
  returns normally.
\<close>

theorem unrecognized_platform_raises:
  "collect_info (test_host ''FreeBSD'' no_commands NoModule) [] =
     ([(''OS'', PStr ''test-platform''), (''Hostname'', PStr ''box''),
       (''OS_Version'', PStr ''1''), (''Architecture'', PStr ''x86_64''),
       (''Scan_Date'', PStr ''2024-01-01 00:00:00'')],
      Inl TypeError)"
  by (simp add: collect_info_def platform_info_def get_gpu_info_def common_fields_def test_host_def)

section \<open>Merging the GPU descriptors\<close>

text \<open>
  Claim C2, as stated, fails: on a Linux host whose PCI listing answers, the text
  wrapper is merged as the three keys \<open>GPU_1_Name\<close>, \<open>GPU_1_Memory\<close> and
  \<open>GPU_1_Driver\<close>, and there is no key \<open>GPU_1\<close>.
\<close>

theorem text_wrapper_single_key_counterexample:
  "snd (collect_info (test_host ''Linux'' lspci_only NoModule) []) =
     Inr [(''OS'', PStr ''test-platform''), (''Hostname'', PStr ''box''),
          (''OS_Version'', PStr ''1''), (''Architecture'', PStr ''x86_64''),
          (''Scan_Date'', PStr ''2024-01-01 00:00:00''),
          (''CPU'', PStr ''Not available''), (''RAM_GB'', PStr ''Unknown''),
          (''Storage'', PStr ''Not available''), (''Serial_Number'', PStr ''Not available''),
          (''Model'', PStr ''Not available''), (''Manufacturer'', PStr ''Not available''),
          (''GPU_1_Name'',
             PStr ''00:02.0 VGA compatible controller: Intel Corporation UHD Graphics 620''),
          (''GPU_1_Memory'', PStr ''Unknown''), (''GPU_1_Driver'', PStr ''Unknown'')]"
proof -
  let ?h = "test_host ''Linux'' lspci_only NoModule"
  have s: "strip ''00:02.0 VGA compatible controller: Intel Corporation UHD Graphics 620'' =
           ''00:02.0 VGA compatible controller: Intel Corporation UHD Graphics 620''"
    by (simp add: strip_def isspace_def)
  have c: "check_output ?h = lspci_only"
    by (simp add: test_host_def)
  have g: "get_gpu_info ?h = Some [Dict [(''Name'',
             PStr ''00:02.0 VGA compatible controller: Intel Corporation UHD Graphics 620'')]]"
    by (simp add: get_gpu_info_def get_command_output_def c lspci_only_def s)
       (simp add: test_host_def)
  have p: "platform_info ?h (common_fields ?h []) =
     ([(''OS'', PStr ''test-platform''), (''Hostname'', PStr ''box''),
          (''OS_Version'', PStr ''1''), (''Architecture'', PStr ''x86_64''),
          (''Scan_Date'', PStr ''2024-01-01 00:00:00''),
          (''CPU'', PStr ''Not available''), (''RAM_GB'', PStr ''Unknown''),
          (''Storage'', PStr ''Not available''), (''Serial_Number'', PStr ''Not available''),
          (''Model'', PStr ''Not available''), (''Manufacturer'', PStr ''Not available'')], None)"
    by (simp add: platform_info_def get_linux_info_def get_command_output_def c lspci_only_def
          apostrophe_def not_available_no_int common_fields_def)
       (simp add: test_host_def)
  show ?thesis
    unfolding collect_info_def p g by (simp add: dict_get_def str_nat_1 Let_def)
qed

text \<open>
  Claim C2, amended. Every descriptor the enumerator returns is a dictionary, and a
  list of \<open>n\<close> dictionaries merged into the empty record gives exactly the keys
  \<open>GPU_j_Name\<close>, \<open>GPU_j_Memory\<close>, \<open>GPU_j_Driver\<close> for \<open>j\<close> from 1 to \<open>n\<close>, in this
  order. On Linux, on macOS and on Windows without the management module the
  enumerator returns one dictionary holding the text under \<open>Name\<close>; the pass returns a
  record where \<open>GPU_1_Name\<close> is the text, \<open>GPU_1_Memory\<close> and \<open>GPU_1_Driver\<close> are
  \<open>Unknown\<close>, and there is no key \<open>GPU_1\<close>.
\<close>

theorem gpu_descriptors_are_dictionaries:
  "(\<forall>gpus. get_gpu_info h = Some gpus \<longrightarrow> (\<forall>g\<in>set gpus. \<exists>d. g = Dict d)) \<and>
   (\<forall>gpus. (\<forall>g\<in>set gpus. \<exists>d. g = Dict d) \<longrightarrow>
      keys (merge_gpus h 0 gpus []) = gpu_keys 0 (length gpus)) \<and>
   (system h = ''Linux'' \<or> system h = ''Darwin'' \<or> (system h = ''Windows'' \<and> wmi h = NoModule) \<longrightarrow>
      (\<exists>t specs. get_gpu_info h = Some [Dict [(''Name'', PStr t)]] \<and>
         collect_info h [] = (specs, Inr specs) \<and>
         map_of specs ''GPU_1_Name'' = Some (PStr t) \<and>
         map_of specs ''GPU_1_Memory'' = Some (PStr ''Unknown'') \<and>
         map_of specs ''GPU_1_Driver'' = Some (PStr ''Unknown'') \<and>
         map_of specs ''GPU_1'' = None))"
proof (intro conjI allI impI)
  fix gpus
  assume "get_gpu_info h = Some gpus"
  then show "\<forall>g\<in>set gpus. \<exists>d. g = Dict d"
    by (rule get_gpu_info_dicts)
next
  fix gpus :: "'a descriptor list"
  assume "\<forall>g\<in>set gpus. \<exists>d. g = Dict d"
  then show "keys (merge_gpus h 0 gpus []) = gpu_keys 0 (length gpus)"
    using keys_merge_gpus [of gpus 0 "[]" h] by (simp add: keys_def)
next
  assume "system h = ''Linux'' \<or> system h = ''Darwin'' \<or> (system h = ''Windows'' \<and> wmi h = NoModule)"
  then consider (linux) "system h = ''Linux''" | (darwin) "system h = ''Darwin''"
    | (windows) "system h = ''Windows''" "wmi h = NoModule"
    by blast
  then show "\<exists>t specs. get_gpu_info h = Some [Dict [(''Name'', PStr t)]] \<and>
         collect_info h [] = (specs, Inr specs) \<and>
         map_of specs ''GPU_1_Name'' = Some (PStr t) \<and>
         map_of specs ''GPU_1_Memory'' = Some (PStr ''Unknown'') \<and>
         map_of specs ''GPU_1_Driver'' = Some (PStr ''Unknown'') \<and>
         map_of specs ''GPU_1'' = None"
  proof cases
    case linux
    from linux_pass [OF linux] show ?thesis
      by (auto simp: Let_def)
  next
    case darwin
    from darwin_pass [OF darwin] show ?thesis
      by (auto simp: Let_def)
  next
    case windows
    from windows_fallback_pass [OF windows] show ?thesis
      by (auto simp: Let_def)
  qed
qed

text \<open>A macOS host whose every command answers \<open>Apple M1\<close>.\<close>

theorem gpu_descriptors_are_dictionaries_witness:
  "get_gpu_info (test_host ''Darwin'' (every_command ''Apple M1'') NoModule) =
     Some [Dict [(''Name'', PStr ''Apple M1'')]] \<and>
   keys (merge_gpus (test_host ''Darwin'' (every_command ''Apple M1'') NoModule) 0
           [Dict [(''Name'', PStr ''Apple M1'')]] []) =
     [''GPU_1_Name'', ''GPU_1_Memory'', ''GPU_1_Driver''] \<and>
   snd (collect_info (test_host ''Darwin'' (every_command ''Apple M1'') NoModule) []) =
     Inr (fst (collect_info (test_host ''Darwin'' (every_command ''Apple M1'') NoModule) [])) \<and>
   map_of (fst (collect_info (test_host ''Darwin'' (every_command ''Apple M1'') NoModule) []))
     ''GPU_1_Name'' = Some (PStr ''Apple M1'') \<and>
   map_of (fst (collect_info (test_host ''Darwin'' (every_command ''Apple M1'') NoModule) []))
     ''GPU_1_Memory'' = Some (PStr ''Unknown'') \<and>
   map_of (fst (collect_info (test_host ''Darwin'' (every_command ''Apple M1'') NoModule) []))
     ''GPU_1_Driver'' = Some (PStr ''Unknown'') \<and>
   map_of (fst (collect_info (test_host ''Darwin'' (every_command ''Apple M1'') NoModule) []))
     ''GPU_1'' = None"
proof -
  let ?h = "test_host ''Darwin'' (every_command ''Apple M1'') NoModule"
  let ?g = "[Dict [(''Name'', PStr ''Apple M1'')]] :: (int \<times> nat) descriptor list"
  note inst = gpu_descriptors_are_dictionaries [of ?h]
  have sys: "system ?h = ''Linux'' \<or> system ?h = ''Darwin'' \<or>
             (system ?h = ''Windows'' \<and> wmi ?h = NoModule)"
    by (simp add: test_host_def)
  have g: "get_gpu_info ?h = Some ?g"
    by (simp add: get_gpu_info_def get_command_output_def test_host_def every_command_def
          strip_def isspace_def)
  have dicts: "\<forall>g\<in>set ?g. \<exists>d. g = Dict d"
    by (rule inst [THEN conjunct1, THEN spec, THEN mp, OF g])
  have "keys (merge_gpus ?h 0 ?g []) = gpu_keys 0 (length ?g)"
    by (rule inst [THEN conjunct2, THEN conjunct1, THEN spec, THEN mp, OF dicts])
  also have "\<dots> = [''GPU_1_Name'', ''GPU_1_Memory'', ''GPU_1_Driver'']"
    by (simp add: gpu_keys_def gpu_triple_def str_nat_1)
  finally have k: "keys (merge_gpus ?h 0 ?g []) = [''GPU_1_Name'', ''GPU_1_Memory'', ''GPU_1_Driver'']" .
  from inst [THEN conjunct2, THEN conjunct2, THEN mp, OF sys]
  obtain t where "\<exists>specs. get_gpu_info ?h = Some [Dict [(''Name'', PStr t)]] \<and>
         collect_info ?h [] = (specs, Inr specs) \<and>
         map_of specs ''GPU_1_Name'' = Some (PStr t) \<and>
         map_of specs ''GPU_1_Memory'' = Some (PStr ''Unknown'') \<and>
         map_of specs ''GPU_1_Driver'' = Some (PStr ''Unknown'') \<and>
         map_of specs ''GPU_1'' = None" ..
  then obtain specs where r: "get_gpu_info ?h = Some [Dict [(''Name'', PStr t)]] \<and>
         collect_info ?h [] = (specs, Inr specs) \<and>
         map_of specs ''GPU_1_Name'' = Some (PStr t) \<and>
         map_of specs ''GPU_1_Memory'' = Some (PStr ''Unknown'') \<and>
         map_of specs ''GPU_1_Driver'' = Some (PStr ''Unknown'') \<and>
         map_of specs ''GPU_1'' = None" ..
  from r have "get_gpu_info ?h = Some [Dict [(''Name'', PStr t)]]"
    by (rule conjunct1)
  then have "Some ?g = Some [Dict [(''Name'', PStr t)]]"
    by (simp only: g)
  then have t: "t = ''Apple M1''"
    by simp
  from r have c: "collect_info ?h [] = (specs, Inr specs)"
    and n: "map_of specs ''GPU_1_Name'' = Some (PStr t)"
    and m: "map_of specs ''GPU_1_Memory'' = Some (PStr ''Unknown'')"
    and d: "map_of specs ''GPU_1_Driver'' = Some (PStr ''Unknown'')"
    and z: "map_of specs ''GPU_1'' = None"
    by (rule conjunct2 [THEN conjunct1], rule conjunct2 [THEN conjunct2, THEN conjunct1],
        rule conjunct2 [THEN conjunct2, THEN conjunct2, THEN conjunct1],
        rule conjunct2 [THEN conjunct2, THEN conjunct2, THEN conjunct2, THEN conjunct1],
        rule conjunct2 [THEN conjunct2, THEN conjunct2, THEN conjunct2, THEN conjunct2])
  have f: "fst (collect_info ?h []) = specs" and s: "snd (collect_info ?h []) = Inr specs"
    unfolding c by simp_all
  show ?thesis
    unfolding f s using g k n m d z unfolding t by (intro conjI) (rule refl | assumption)+
qed

section \<open>A host where every command fails\<close>

text \<open>
  Claim C3, as stated, fails on the Windows text-command fallback: with every
  command failing, \<open>RAM_GB\<close> holds \<open>Not available\<close>, not \<open>Unknown\<close> (the fallback
  stores the runner's result without converting it).
\<close>

theorem windows_fallback_ram_counterexample:
  "map_of (fst (collect_info (test_host ''Windows'' no_commands NoModule) [])) ''RAM_GB'' =
     Some (PStr ''Not available'')"
  by (simp add: collect_info_def platform_info_def get_gpu_info_def common_fields_def
        get_windows_info_def get_command_output_def test_host_def no_commands_def
        dict_get_def str_nat_1 Let_def)

text \<open>
  Claim C3, amended. When the runner fails for every command, the pass returns this
  record: on Linux and on macOS every textual platform field and \<open>GPU_1_Name\<close> hold
  \<open>Not available\<close> and \<open>RAM_GB\<close> holds \<open>Unknown\<close>; on Windows without the management
  module every platform field, \<open>RAM_GB\<close> included, and \<open>GPU_1_Name\<close> hold
  \<open>Not available\<close>. On the three paths \<open>GPU_1_Memory\<close> and \<open>GPU_1_Driver\<close> hold
  \<open>Unknown\<close>.
\<close>

theorem every_command_fails:
  assumes "\<forall>command. \<exists>e. check_output h command = Inl e"
  shows
    "(system h = ''Linux'' \<longrightarrow>
        collect_info h [] =
          (let specs =
             [(''OS'', PStr (platform_platform h)), (''Hostname'', PStr (platform_node h)),
              (''OS_Version'', PStr (platform_version h)),
              (''Architecture'', PStr (platform_machine h)),
              (''Scan_Date'', PStr (scan_date h)),
              (''CPU'', PStr ''Not available''), (''RAM_GB'', PStr ''Unknown''),
              (''Storage'', PStr ''Not available''), (''Serial_Number'', PStr ''Not available''),
              (''Model'', PStr ''Not available''), (''Manufacturer'', PStr ''Not available''),
              (''GPU_1_Name'', PStr ''Not available''), (''GPU_1_Memory'', PStr ''Unknown''),
              (''GPU_1_Driver'', PStr ''Unknown'')]
           in (specs, Inr specs))) \<and>
     (system h = ''Darwin'' \<longrightarrow>
        collect_info h [] =
          (let specs =
             [(''OS'', PStr (platform_platform h)), (''Hostname'', PStr (platform_node h)),
              (''OS_Version'', PStr (platform_version h)),
              (''Architecture'', PStr (platform_machine h)),
              (''Scan_Date'', PStr (scan_date h)),
              (''Serial_Number'', PStr ''Not available''), (''Model'', PStr ''Not available''),
              (''CPU'', PStr ''Not available''), (''RAM_GB'', PStr ''Unknown''),
              (''Storage'', PStr ''Not available''),
              (''GPU_1_Name'', PStr ''Not available''), (''GPU_1_Memory'', PStr ''Unknown''),
              (''GPU_1_Driver'', PStr ''Unknown'')]
           in (specs, Inr specs))) \<and>
     (system h = ''Windows'' \<and> wmi h = NoModule \<longrightarrow>
        collect_info h [] =
          (let specs =
             [(''OS'', PStr (platform_platform h)), (''Hostname'', PStr (platform_node h)),
              (''OS_Version'', PStr (platform_version h)),
              (''Architecture'', PStr (platform_machine h)),
              (''Scan_Date'', PStr (scan_date h)),
              (''Serial_Number'', PStr ''Not available''), (''Model'', PStr ''Not available''),
              (''CPU'', PStr ''Not available''), (''RAM_GB'', PStr ''Not available''),
              (''Storage'', PStr ''Not available''),
              (''GPU_1_Name'', PStr ''Not available''), (''GPU_1_Memory'', PStr ''Unknown''),
              (''GPU_1_Driver'', PStr ''Unknown'')]
           in (specs, Inr specs)))"
    (is "(_ \<longrightarrow> _ = ?linux) \<and> (_ \<longrightarrow> _ = ?darwin) \<and> (_ \<longrightarrow> _ = ?windows)")
proof -
  note na = all_fail_sentinel [OF assms]
  have linux: "collect_info h [] = ?linux" if sys: "system h = ''Linux''"
  proof -
    have g: "get_gpu_info h = Some [Dict [(''Name'', PStr ''Not available'')]]"
      by (simp add: get_gpu_info_def sys na)
    have p: "platform_info h (common_fields h []) = (get_linux_info h (common_fields h []), None)"
      by (simp add: platform_info_def sys)
    show ?thesis
      unfolding collect_info_def p g
      by (simp add: get_linux_info_def na not_available_no_int common_fields_empty
            dict_get_def str_nat_1)
  qed
  have darwin: "collect_info h [] = ?darwin" if sys: "system h = ''Darwin''"
  proof -
    have g: "get_gpu_info h = Some [Dict [(''Name'', PStr ''Not available'')]]"
      by (simp add: get_gpu_info_def sys na)
    have p: "platform_info h (common_fields h []) = (get_mac_info h (common_fields h []), None)"
      by (simp add: platform_info_def sys)
    show ?thesis
      unfolding collect_info_def p g
      by (simp add: get_mac_info_def na not_available_no_int common_fields_empty
            dict_get_def str_nat_1)
  qed
  have windows: "collect_info h [] = ?windows" if sys: "system h = ''Windows''" and nm: "wmi h = NoModule"
  proof -
    have g: "get_gpu_info h = Some [Dict [(''Name'', PStr ''Not available'')]]"
      by (simp add: get_gpu_info_def sys nm na)
    have p: "platform_info h (common_fields h []) = get_windows_info h (common_fields h [])"
      by (simp add: platform_info_def sys)
    show ?thesis
      unfolding collect_info_def p
      by (simp add: g get_windows_info_def nm na common_fields_empty dict_get_def str_nat_1)
  qed
  show ?thesis
  proof (intro conjI impI)
    assume "system h = ''Linux''"
    then show "collect_info h [] = ?linux" by (rule linux)
  next
    assume "system h = ''Darwin''"
    then show "collect_info h [] = ?darwin" by (rule darwin)
  next
    assume w: "system h = ''Windows'' \<and> wmi h = NoModule"
    show "collect_info h [] = ?windows"
      by (rule windows [OF w [THEN conjunct1] w [THEN conjunct2]])
  qed
qed

text \<open>The three platforms on a host where every command exits with status 127.\<close>

theorem every_command_fails_witness:
  "snd (collect_info (test_host ''Linux'' no_commands NoModule) []) =
     Inr [(''OS'', PStr ''test-platform''), (''Hostname'', PStr ''box''),
          (''OS_Version'', PStr ''1''), (''Architecture'', PStr ''x86_64''),
          (''Scan_Date'', PStr ''2024-01-01 00:00:00''),
          (''CPU'', PStr ''Not available''), (''RAM_GB'', PStr ''Unknown''),
          (''Storage'', PStr ''Not available''), (''Serial_Number'', PStr ''Not available''),
          (''Model'', PStr ''Not available''), (''Manufacturer'', PStr ''Not available''),
          (''GPU_1_Name'', PStr ''Not available''), (''GPU_1_Memory'', PStr ''Unknown''),
          (''GPU_1_Driver'', PStr ''Unknown'')] \<and>
   snd (collect_info (test_host ''Darwin'' no_commands NoModule) []) =
     Inr [(''OS'', PStr ''test-platform''), (''Hostname'', PStr ''box''),
          (''OS_Version'', PStr ''1''), (''Architecture'', PStr ''x86_64''),
          (''Scan_Date'', PStr ''2024-01-01 00:00:00''),
          (''Serial_Number'', PStr ''Not available''), (''Model'', PStr ''Not available''),
          (''CPU'', PStr ''Not available''), (''RAM_GB'', PStr ''Unknown''),
          (''Storage'', PStr ''Not available''),
          (''GPU_1_Name'', PStr ''Not available''), (''GPU_1_Memory'', PStr ''Unknown''),
          (''GPU_1_Driver'', PStr ''Unknown'')] \<and>
   snd (collect_info (test_host ''Windows'' no_commands NoModule) []) =
     Inr [(''OS'', PStr ''test-platform''), (''Hostname'', PStr ''box''),
          (''OS_Version'', PStr ''1''), (''Architecture'', PStr ''x86_64''),
          (''Scan_Date'', PStr ''2024-01-01 00:00:00''),
          (''Serial_Number'', PStr ''Not available''), (''Model'', PStr ''Not available''),
          (''CPU'', PStr ''Not available''), (''RAM_GB'', PStr ''Not available''),
          (''Storage'', PStr ''Not available''),
          (''GPU_1_Name'', PStr ''Not available''), (''GPU_1_Memory'', PStr ''Unknown''),
          (''GPU_1_Driver'', PStr ''Unknown'')]"
proof -
  have fails: "\<forall>command. \<exists>e. check_output (test_host sys no_commands NoModule) command = Inl e"
    for sys
    by (simp add: test_host_def no_commands_def)
  have l: "system (test_host ''Linux'' no_commands NoModule) = ''Linux''"
    and d: "system (test_host ''Darwin'' no_commands NoModule) = ''Darwin''"
    and w: "system (test_host ''Windows'' no_commands NoModule) = ''Windows'' \<and>
            wmi (test_host ''Windows'' no_commands NoModule) = NoModule"
    by (simp_all add: test_host_def)
  from every_command_fails [OF fails, THEN conjunct1, THEN mp, OF l]
  have 1: "snd (collect_info (test_host ''Linux'' no_commands NoModule) []) =
     Inr [(''OS'', PStr ''test-platform''), (''Hostname'', PStr ''box''),
          (''OS_Version'', PStr ''1''), (''Architecture'', PStr ''x86_64''),
          (''Scan_Date'', PStr ''2024-01-01 00:00:00''),
          (''CPU'', PStr ''Not available''), (''RAM_GB'', PStr ''Unknown''),
          (''Storage'', PStr ''Not available''), (''Serial_Number'', PStr ''Not available''),
          (''Model'', PStr ''Not available''), (''Manufacturer'', PStr ''Not available''),
          (''GPU_1_Name'', PStr ''Not available''), (''GPU_1_Memory'', PStr ''Unknown''),
          (''GPU_1_Driver'', PStr ''Unknown'')]"
    by (simp add: Let_def) (simp add: test_host_def)
  from every_command_fails [OF fails, THEN conjunct2, THEN conjunct1, THEN mp, OF d]
  have 2: "snd (collect_info (test_host ''Darwin'' no_commands NoModule) []) =
     Inr [(''OS'', PStr ''test-platform''), (''Hostname'', PStr ''box''),
          (''OS_Version'', PStr ''1''), (''Architecture'', PStr ''x86_64''),
          (''Scan_Date'', PStr ''2024-01-01 00:00:00''),
          (''Serial_Number'', PStr ''Not available''), (''Model'', PStr ''Not available''),
          (''CPU'', PStr ''Not available''), (''RAM_GB'', PStr ''Unknown''),
          (''Storage'', PStr ''Not available''),
          (''GPU_1_Name'', PStr ''Not available''), (''GPU_1_Memory'', PStr ''Unknown''),
          (''GPU_1_Driver'', PStr ''Unknown'')]"
    by (simp add: Let_def) (simp add: test_host_def)
  from every_command_fails [OF fails, THEN conjunct2, THEN conjunct2, THEN mp, OF w]
  have 3: "snd (collect_info (test_host ''Windows'' no_commands NoModule) []) =
     Inr [(''OS'', PStr ''test-platform''), (''Hostname'', PStr ''box''),
          (''OS_Version'', PStr ''1''), (''Architecture'', PStr ''x86_64''),
          (''Scan_Date'', PStr ''2024-01-01 00:00:00''),
          (''Serial_Number'', PStr ''Not available''), (''Model'', PStr ''Not available''),
          (''CPU'', PStr ''Not available''), (''RAM_GB'', PStr ''Not available''),
          (''Storage'', PStr ''Not available''),
          (''GPU_1_Name'', PStr ''Not available''), (''GPU_1_Memory'', PStr ''Unknown''),
          (''GPU_1_Driver'', PStr ''Unknown'')]"
    by (simp add: Let_def) (simp add: test_host_def)
  from 1 2 3 show ?thesis
    by (intro conjI)
qed

section \<open>The RAM field on Linux and macOS\<close>

text \<open>
  Claim C4, as stated, fails: on Linux, a host whose memory command fails and a host
  whose memory command answers \<open>n/a\<close> both end with \<open>RAM_GB\<close> holding \<open>Unknown\<close>.
\<close>

theorem ram_failures_share_sentinel_counterexample:
  "map_of (fst (collect_info (test_host ''Linux'' no_commands NoModule) [])) ''RAM_GB'' =
     Some (PStr ''Unknown'') \<and>
   map_of (fst (collect_info (test_host ''Linux'' (every_command ''n/a'') NoModule) [])) ''RAM_GB'' =
     Some (PStr ''Unknown'')"
proof -
  have n: "py_int 4300 ''n/a'' = None"
    by (simp add: py_int_def strip_def isspace_def isdigit_def)
  have s: "strip ''n/a'' = ''n/a''"
    by (simp add: strip_def isspace_def)
  have a: "map_of (fst (collect_info (test_host ''Linux'' no_commands NoModule) [])) ''RAM_GB'' =
     Some (PStr ''Unknown'')"
    by (simp add: collect_info_def platform_info_def get_gpu_info_def common_fields_def
        get_linux_info_def get_command_output_def test_host_def no_commands_def
        not_available_no_int dict_get_def str_nat_1 Let_def)
  have b: "map_of (fst (collect_info (test_host ''Linux'' (every_command ''n/a'') NoModule) []))
      ''RAM_GB'' = Some (PStr ''Unknown'')"
    by (simp add: collect_info_def platform_info_def get_gpu_info_def common_fields_def
        get_linux_info_def get_command_output_def test_host_def every_command_def
        n s dict_get_def str_nat_1 Let_def)
  from a b show ?thesis ..
qed

text \<open>
  Claim C4, amended. On Linux and on macOS \<open>RAM_GB\<close> holds \<open>Unknown\<close> when the memory
  command fails, when its output is not a decimal integer, and when the conversion
  overflows; otherwise it holds the converted number. It never holds
  \<open>Not available\<close>: the two causes of failure end in the same sentinel.
\<close>

theorem ram_sentinel_is_unknown:
  "(system h = ''Linux'' \<longrightarrow>
      map_of (fst (collect_info h [])) ''RAM_GB'' =
        Some (case check_output h (''grep MemTotal /proc/meminfo | awk '{print $2}'' @ apostrophe) of
                Inl e \<Rightarrow> PStr ''Unknown''
              | Inr out \<Rightarrow>
                  (case py_int (int_max_str_digits h) out of
                     None \<Rightarrow> PStr ''Unknown''
                   | Some n \<Rightarrow>
                       (case round_div h n 2 of
                          None \<Rightarrow> PStr ''Unknown''
                        | Some x \<Rightarrow> PFloat x)))) \<and>
   (system h = ''Darwin'' \<longrightarrow>
      map_of (fst (collect_info h [])) ''RAM_GB'' =
        Some (case check_output h (''sysctl hw.memsize | awk '{print $2}'' @ apostrophe) of
                Inl e \<Rightarrow> PStr ''Unknown''
              | Inr out \<Rightarrow>
                  (case py_int (int_max_str_digits h) out of
                     None \<Rightarrow> PStr ''Unknown''
                   | Some n \<Rightarrow>
                       (case round_div h n 3 of
                          None \<Rightarrow> PStr ''Unknown''
                        | Some x \<Rightarrow> PFloat x)))) \<and>
   (system h = ''Linux'' \<or> system h = ''Darwin'' \<longrightarrow>
      map_of (fst (collect_info h [])) ''RAM_GB'' \<noteq> Some (PStr ''Not available''))"
  (is "(_ \<longrightarrow> ?L) \<and> (_ \<longrightarrow> ?D) \<and> (_ \<longrightarrow> ?N)")
proof -
  have linux: ?L if sys: "system h = ''Linux''"
  proof -
    from gpu_wrapper [of h] sys
    obtain t where g: "get_gpu_info h = Some [Dict [(''Name'', PStr t)]]"
      by blast
    have p: "platform_info h (common_fields h []) = (get_linux_info h (common_fields h []), None)"
      by (simp add: platform_info_def sys)
    show ?thesis
      unfolding collect_info_def p g
      by (simp add: get_linux_info_def common_fields_empty dict_get_def str_nat_1 Let_def
            ram_value)
  qed
  have darwin: ?D if sys: "system h = ''Darwin''"
  proof -
    from gpu_wrapper [of h] sys
    obtain t where g: "get_gpu_info h = Some [Dict [(''Name'', PStr t)]]"
      by blast
    have p: "platform_info h (common_fields h []) = (get_mac_info h (common_fields h []), None)"
      by (simp add: platform_info_def sys)
    show ?thesis
      unfolding collect_info_def p g
      by (simp add: get_mac_info_def common_fields_empty dict_get_def str_nat_1 Let_def
            ram_value)
  qed
  have never: ?N if sys: "system h = ''Linux'' \<or> system h = ''Darwin''"
  proof -
    from sys show ?thesis
    proof
      assume "system h = ''Linux''"
      from linux [OF this] show ?thesis
        by (simp split: sum.splits option.splits)
    next
      assume "system h = ''Darwin''"
      from darwin [OF this] show ?thesis
        by (simp split: sum.splits option.splits)
    qed
  qed
  show ?thesis
  proof (intro conjI impI)
    assume "system h = ''Linux''"
    then show ?L by (rule linux)
  next
    assume "system h = ''Darwin''"
    then show ?D by (rule darwin)
  next
    assume "system h = ''Linux'' \<or> system h = ''Darwin''"
    then show ?N by (rule never)
  qed
qed

text \<open>
  A Linux host reporting 16777216 kB, a macOS host reporting 17179869184 bytes, and a
  Linux host where every command fails.
\<close>

theorem ram_sentinel_is_unknown_witness:
  "map_of (fst (collect_info (test_host ''Linux'' (every_command ''16777216'') NoModule) []))
     ''RAM_GB'' = Some (PFloat (16777216, 2)) \<and>
   map_of (fst (collect_info (test_host ''Darwin'' (every_command ''17179869184'') NoModule) []))
     ''RAM_GB'' = Some (PFloat (17179869184, 3)) \<and>
   map_of (fst (collect_info (test_host ''Linux'' no_commands NoModule) []))
     ''RAM_GB'' \<noteq> Some (PStr ''Not available'')"
proof -
  let ?l = "test_host ''Linux'' (every_command ''16777216'') NoModule"
  let ?d = "test_host ''Darwin'' (every_command ''17179869184'') NoModule"
  let ?f = "test_host ''Linux'' no_commands NoModule"
  have kb: "py_int 4300 ''16777216'' = Some 16777216"
    by (simp add: py_int_def strip_def isspace_def isdigit_def digits_value_def digit_value_def)
  have gib: "py_int 4300 ''17179869184'' = Some 17179869184"
    by (simp add: py_int_def strip_def isspace_def isdigit_def digits_value_def digit_value_def)
  have l: "system ?l = ''Linux''" and d: "system ?d = ''Darwin''"
    and f: "system ?f = ''Linux'' \<or> system ?f = ''Darwin''"
    by (simp_all add: test_host_def)
  from ram_sentinel_is_unknown [of ?l, THEN conjunct1, THEN mp, OF l]
  have 1: "map_of (fst (collect_info ?l [])) ''RAM_GB'' = Some (PFloat (16777216, 2))"
    by (simp add: test_host_def every_command_def kb)
  from ram_sentinel_is_unknown [of ?d, THEN conjunct2, THEN conjunct1, THEN mp, OF d]
  have 2: "map_of (fst (collect_info ?d [])) ''RAM_GB'' = Some (PFloat (17179869184, 3))"
    by (simp add: test_host_def every_command_def gib)
  have 3: "map_of (fst (collect_info ?f [])) ''RAM_GB'' \<noteq> Some (PStr ''Not available'')"
    by (rule ram_sentinel_is_unknown [of ?f, THEN conjunct2, THEN conjunct2, THEN mp, OF f])
  from 1 2 3 show ?thesis
    by (intro conjI)
qed

section \<open>The GPU probes on Linux\<close>

lemma lspci_fails:
  assumes "system h = ''Linux''"
    and "check_output h (''lspci | grep -E 'vga|3d|2d'' @ apostrophe) = Inl e"
  shows "get_gpu_info h = Some [Dict [(''Name'', PStr ''Not available'')]]"
  using assms by (simp add: get_gpu_info_def get_command_output_def)

text \<open>
  Claim C5. On a Linux host where the PCI listing fails (its \<^verbatim>\<open>grep\<close> matches nothing
  and exits with status 1) and the NVIDIA tool would answer, the descriptor holds the
  runner's sentinel \<open>Not available\<close>: the sentinel is a non-empty string, so the
  second probe is not run. The claim says the next probe is attempted.
\<close>

theorem failed_pci_probe_ends_chain:
  "get_gpu_info (test_host ''Linux'' nvidia_only NoModule) =
     Some [Dict [(''Name'', PStr ''Not available'')]] \<and>
   get_command_output (test_host ''Linux'' nvidia_only NoModule)
     ''nvidia-smi --query-gpu=gpu_name,memory.total,driver_version --format=csv,noheader'' =
     ''NVIDIA GeForce RTX 3080, 10240 MiB, 535.54''"
  by (simp add: get_gpu_info_def get_command_output_def test_host_def nvidia_only_def
        apostrophe_def strip_def isspace_def)

section \<open>The Windows text-command fallback\<close>

lemma fallback_never_writes_manufacturer:
  assumes "system h = ''Windows''" and "wmi h = NoModule"
  shows "''Manufacturer'' \<notin> set (keys (fst (collect_info h [])))"
  using windows_fallback_pass [OF assms] by (auto simp: Let_def keys_def)

text \<open>
  Claim C6. The keys of the record on a Windows host without the management module,
  and on one with it: the fallback writes no \<open>Manufacturer\<close>. The claim says no field
  of the structured path is missing on the fallback path.
\<close>

theorem fallback_omits_manufacturer:
  "keys (fst (collect_info (test_host ''Windows'' no_commands NoModule) [])) =
     [''OS'', ''Hostname'', ''OS_Version'', ''Architecture'', ''Scan_Date'',
      ''Serial_Number'', ''Model'', ''CPU'', ''RAM_GB'', ''Storage'',
      ''GPU_1_Name'', ''GPU_1_Memory'', ''GPU_1_Driver''] \<and>
   keys (fst (collect_info (test_host ''Windows'' no_commands (Connected office_pc)) [])) =
     [''OS'', ''Hostname'', ''OS_Version'', ''Architecture'', ''Scan_Date'',
      ''Serial_Number'', ''Manufacturer'', ''Model'', ''CPU'', ''RAM_GB'', ''Storage'',
      ''GPU_1_Name'', ''GPU_1_Memory'', ''GPU_1_Driver'']"
proof -
  have a: "py_int 4300 ''17179869184'' = Some 17179869184"
    by (simp add: py_int_def strip_def isspace_def isdigit_def digits_value_def digit_value_def)
  have b: "py_int 4300 ''512110190592'' = Some 512110190592"
    by (simp add: py_int_def strip_def isspace_def isdigit_def digits_value_def digit_value_def)
  show ?thesis
    by (simp add: collect_info_def platform_info_def get_gpu_info_def common_fields_def
        get_windows_info_def get_command_output_def test_host_def no_commands_def office_pc_def
        first_of_def a b dict_get_def str_nat_1 keys_def Let_def)
qed

section \<open>The fields of a pass\<close>

text \<open>
  On the three paths that read the host through commands, the pass returns the
  record it built, with every field it writes, whatever the commands do.
\<close>

lemma command_paths_fields_present:
  "(system h = ''Linux'' \<longrightarrow>
      snd (collect_info h []) = Inr (fst (collect_info h [])) \<and>
      keys (fst (collect_info h [])) =
        [''OS'', ''Hostname'', ''OS_Version'', ''Architecture'', ''Scan_Date'',
         ''CPU'', ''RAM_GB'', ''Storage'', ''Serial_Number'', ''Model'', ''Manufacturer'',
         ''GPU_1_Name'', ''GPU_1_Memory'', ''GPU_1_Driver'']) \<and>
   (system h = ''Darwin'' \<longrightarrow>
      snd (collect_info h []) = Inr (fst (collect_info h [])) \<and>
      keys (fst (collect_info h [])) =
        [''OS'', ''Hostname'', ''OS_Version'', ''Architecture'', ''Scan_Date'',
         ''Serial_Number'', ''Model'', ''CPU'', ''RAM_GB'', ''Storage'',
         ''GPU_1_Name'', ''GPU_1_Memory'', ''GPU_1_Driver'']) \<and>
   (system h = ''Windows'' \<and> wmi h = NoModule \<longrightarrow>
      snd (collect_info h []) = Inr (fst (collect_info h [])) \<and>
      keys (fst (collect_info h [])) =
        [''OS'', ''Hostname'', ''OS_Version'', ''Architecture'', ''Scan_Date'',
         ''Serial_Number'', ''Model'', ''CPU'', ''RAM_GB'', ''Storage'',
         ''GPU_1_Name'', ''GPU_1_Memory'', ''GPU_1_Driver''])"
  (is "(_ \<longrightarrow> ?L) \<and> (_ \<longrightarrow> ?D) \<and> (_ \<longrightarrow> ?F)")
proof -
  have L: ?L if "system h = ''Linux''"
    using linux_pass [OF that] by (auto simp: Let_def keys_def)
  have D: ?D if "system h = ''Darwin''"
    using darwin_pass [OF that] by (auto simp: Let_def keys_def)
  have F: ?F if w: "system h = ''Windows'' \<and> wmi h = NoModule"
    using windows_fallback_pass [OF w [THEN conjunct1] w [THEN conjunct2]]
    by (auto simp: Let_def keys_def)
  show ?thesis
    apply (rule conjI)
     apply (rule impI)
     apply (erule L)
    apply (rule conjI)
     apply (rule impI)
     apply (erule D)
    apply (rule impI)
    apply (erule F)
    done
qed

text \<open>
  On the structured Windows path an exception of \<^verbatim>\<open>get_windows_info\<close> is the
  exception of the pass, and the record stays as the method left it.
\<close>

lemma structured_failure_ends_pass:
  assumes "system h = ''Windows''"
    and "get_windows_info h (common_fields h []) = (specs, Some e)"
  shows "collect_info h [] = (specs, Inl e)"
  by (simp add: collect_info_def platform_info_def assms)

text \<open>
  Claim C7. On a Windows host whose management interface answers every query, but
  whose only disk drive is a card reader without a medium (its size is
  \<^verbatim>\<open>None\<close>), the size does not convert, \<^verbatim>\<open>get_windows_info\<close> catches
  \<^verbatim>\<open>ImportError\<close> only, and the pass ends by the exception: \<open>Storage\<close> and the GPU
  fields are absent from the record. The claim says no attempted field is left
  absent, whichever query fails.
\<close>

theorem unconverted_disk_size_raises:
  "collect_info
     (test_host ''Windows'' no_commands
        (Connected (office_pc\<lparr>Win32_DiskDrive := Some [card_reader]\<rparr>))) [] =
     ([(''OS'', PStr ''test-platform''), (''Hostname'', PStr ''box''),
       (''OS_Version'', PStr ''1''), (''Architecture'', PStr ''x86_64''),
       (''Scan_Date'', PStr ''2024-01-01 00:00:00''),
       (''Serial_Number'', PStr ''ABC1234''), (''Manufacturer'', PStr ''Dell Inc.''),
       (''Model'', PStr ''OptiPlex 7090''), (''CPU'', PStr ''Intel(R) Core(TM) i7-11700''),
       (''RAM_GB'', PFloat (17179869184, 3))],
      Inl ConversionError)"
proof -
  have a: "py_int 4300 ''17179869184'' = Some 17179869184"
    by (simp add: py_int_def strip_def isspace_def isdigit_def digits_value_def digit_value_def)
  show ?thesis
    by (simp add: collect_info_def platform_info_def common_fields_def
        get_windows_info_def test_host_def office_pc_def card_reader_def
        first_of_def a Let_def)
qed

section \<open>The external command runner\<close>

text \<open>
  Claim C9. The runner is total: whatever \<^verbatim>\<open>check_output\<close> does for a command,
  the runner returns a string. When the command succeeds it returns the captured
  output stripped: the output is that string between two runs of whitespace, and
  the string neither starts nor ends with whitespace. When the command raises, for
  any exception, it returns exactly \<open>Not available\<close>.
\<close>

theorem get_command_output_total:
  "(\<forall>out. check_output h command = Inr out \<longrightarrow>
      get_command_output h command = strip out \<and>
      (\<exists>l r. out = l @ strip out @ r \<and> list_all isspace l \<and> list_all isspace r) \<and>
      (strip out = [] \<or>
       \<not> isspace (hd (strip out)) \<and> \<not> isspace (last (strip out)))) \<and>
   (\<forall>e. check_output h command = Inl e \<longrightarrow>
      get_command_output h command = ''Not available'')"
proof (intro conjI allI impI)
  fix out
  assume "check_output h command = Inr out"
  then show "get_command_output h command = strip out"
    by (simp add: get_command_output_def)
next
  fix out
  show "\<exists>l r. out = l @ strip out @ r \<and> list_all isspace l \<and> list_all isspace r"
    by (rule strip_decomposition)
next
  fix out
  show "strip out = [] \<or>
        \<not> isspace (hd (strip out)) \<and> \<not> isspace (last (strip out))"
    using strip_hd [of out] strip_last [of out] by blast
next
  fix e
  assume "check_output h command = Inl e"
  then show "get_command_output h command = ''Not available''"
    by (simp add: get_command_output_def)
qed

text \<open>The runner on a host where one command succeeds and every other one fails.\<close>

theorem get_command_output_total_witness:
  "get_command_output
     (test_host ''Linux'' (\<lambda>c. if c = ''hostname'' then Inr '' box01 '' else Inl OSError) NoModule)
     ''hostname'' = ''box01'' \<and>
   get_command_output
     (test_host ''Linux'' (\<lambda>c. if c = ''hostname'' then Inr '' box01 '' else Inl OSError) NoModule)
     ''lspci'' = ''Not available''"
proof -
  let ?h = "test_host ''Linux'' (\<lambda>c. if c = ''hostname'' then Inr '' box01 '' else Inl OSError) NoModule"
  have ok: "check_output ?h ''hostname'' = Inr '' box01 ''"
    by (simp add: test_host_def)
  have bad: "check_output ?h ''lspci'' = Inl OSError"
    by (simp add: test_host_def)
  have s: "strip '' box01 '' = ''box01''"
    by (simp add: strip_def isspace_def)
  from get_command_output_total [of ?h "''hostname''"] ok s
  have 1: "get_command_output ?h ''hostname'' = ''box01''"
    by simp
  from get_command_output_total [of ?h "''lspci''"] bad
  have 2: "get_command_output ?h ''lspci'' = ''Not available''"
    by blast
  from 1 2 show ?thesis by (rule conjI)
qed

section \<open>The report name\<close>

lemma split_on_plain: "sep \<notin> set s \<Longrightarrow> split_on sep s = [s]"
  by (induction s) auto

lemma posix_joinpath_plain:
  assumes "list_all plain_char name" and "name \<noteq> []" and "name \<noteq> ''.''"
  shows "posix_joinpath base name = base @ [name]"
proof -
  from assms(1) have no: "CHR ''/'' \<notin> set name"
    by (auto simp: list_all_iff plain_char_def)
  with assms(2) have "takeWhile (\<lambda>c. c = CHR ''/'') name = []"
    by (cases name) auto
  with no assms(2,3) show ?thesis
    by (simp add: posix_joinpath_def split_on_plain)
qed

lemma filename_base_edges:
  "filename_base line ts \<noteq> [] \<and> \<not> isspace (hd (filename_base line ts))"
proof (cases "strip line = []")
  case True
  then show ?thesis
    by (simp add: filename_base_def isspace_def)
next
  case False
  then show ?thesis
    using strip_hd [of line] by (simp add: filename_base_def)
qed

lemma filename_base_plain:
  assumes "list_all plain_char (strip line)" and "list_all plain_char ts"
  shows "list_all plain_char (filename_base line ts)"
proof -
  have "list_all plain_char ''system_info''" and "plain_char (CHR ''_'')"
    by (simp_all add: plain_char_def)
  with assms show ?thesis
    by (simp add: filename_base_def Let_def)
qed

text \<open>
  Claim C10, as stated, fails in its second half: the answer \<^verbatim>\<open>./ y\<close> has no
  whitespace at either end, so stripping leaves it as it is; the path join splits
  it at the slash and drops the part \<^verbatim>\<open>.\<close>, and the two files are written under
  names that start with a space.
\<close>

theorem answer_with_separator_counterexample:
  "strip ''./ y'' = ''./ y'' \<and>
   snd (save_results (test_host ''Linux'' no_commands NoModule) (posix_env (Some ''./ y'')) []) =
     Inr ([''/'', ''opt'', ''inventory'', ''reports'', '' y_20240101_120000.csv''],
          [''/'', ''opt'', ''inventory'', ''reports'', '' y_20240101_120000.json'']) \<and>
   isspace (hd '' y_20240101_120000.csv'')"
  by (simp add: save_results_def posix_env_def filename_base_def strip_def isspace_def
        posix_joinpath_def Let_def)

text \<open>
  Claim C10, amended. The answer is stripped before the emptiness check, so an
  answer of whitespace only gives the base name \<open>system_info\<close>. When the stripped
  answer holds no path separator (and no colon), on a platform whose path join
  appends such a name as one part, the two files are
  \<open>reports/<base>_<timestamp>.csv\<close> and \<open>.json\<close> in the directory of the program,
  and their names neither start nor end with whitespace.
\<close>

theorem report_names:
  assumes run: "save_results h env specs = (files, Inr (csv_file, json_file))"
    and line: "answer env = Some line"
    and join: "\<forall>base name. list_all plain_char name \<and> name \<noteq> [] \<and> name \<noteq> ''.'' \<longrightarrow>
                 joinpath env base name = base @ [name]"
    and ts: "list_all plain_char (timestamp env)"
    and plain: "list_all plain_char (strip line)"
  shows "csv_file = script_dir env @ [''reports'', filename_base line (timestamp env) @ ''.csv''] \<and>
         json_file = script_dir env @ [''reports'', filename_base line (timestamp env) @ ''.json''] \<and>
         (list_all isspace line \<longrightarrow>
            filename_base line (timestamp env) = ''system_info_'' @ timestamp env) \<and>
         \<not> isspace (hd (last csv_file)) \<and> \<not> isspace (last (last csv_file)) \<and>
         \<not> isspace (hd (last json_file)) \<and> \<not> isspace (last (last json_file))"
proof -
  let ?name = "filename_base line (timestamp env)"
  have p: "list_all plain_char ?name"
    by (rule filename_base_plain [OF plain ts])
  have ne: "?name \<noteq> []" and front: "\<not> isspace (hd ?name)"
    using filename_base_edges [of line "timestamp env"] by simp_all
  have r: "joinpath env (script_dir env) ''reports'' = script_dir env @ [''reports'']"
    using join by (simp add: plain_char_def)
  have c: "joinpath env (script_dir env @ [''reports'']) (?name @ ''.csv'') =
           script_dir env @ [''reports''] @ [?name @ ''.csv'']"
    using join p ne by (simp add: plain_char_def)
  have j: "joinpath env (script_dir env @ [''reports'']) (?name @ ''.json'') =
           script_dir env @ [''reports''] @ [?name @ ''.json'']"
    using join p ne by (simp add: plain_char_def)
  from run have paths: "csv_file = joinpath env (script_dir env @ [''reports'']) (?name @ ''.csv'')"
      "json_file = joinpath env (script_dir env @ [''reports'']) (?name @ ''.json'')"
    by (auto simp: save_results_def line r Let_def split: if_splits)
  have blank: "list_all isspace line \<Longrightarrow> ?name = ''system_info_'' @ timestamp env"
    by (simp add: filename_base_def strip_blank)
  have hd_csv: "hd (?name @ ''.csv'') = hd ?name" and hd_json: "hd (?name @ ''.json'') = hd ?name"
    using ne by simp_all
  have ends: "\<not> isspace (last (?name @ ''.csv''))" "\<not> isspace (last (?name @ ''.json''))"
    by (simp_all add: isspace_def)
  show ?thesis
    unfolding paths c j using blank front hd_csv hd_json ends by simp
qed

text \<open>The answer is a space, a tab and a space, on a POSIX host.\<close>

theorem report_names_witness:
  "list_all isspace [CHR '' '', CHR 0x09, CHR '' ''] \<and>
   snd (save_results (test_host ''Linux'' no_commands NoModule)
          (posix_env (Some [CHR '' '', CHR 0x09, CHR '' ''])) []) =
     Inr ([''/'', ''opt'', ''inventory'', ''reports'', ''system_info_20240101_120000.csv''],
          [''/'', ''opt'', ''inventory'', ''reports'', ''system_info_20240101_120000.json'']) \<and>
   filename_base [CHR '' '', CHR 0x09, CHR '' ''] ''20240101_120000'' =
     ''system_info_20240101_120000''"
proof -
  let ?h = "test_host ''Linux'' no_commands NoModule"
  let ?line = "[CHR '' '', CHR 0x09, CHR '' '']"
  let ?env = "posix_env (Some ?line)"
  let ?csv = "[''/'', ''opt'', ''inventory'', ''reports'', ''system_info_20240101_120000.csv'']"
  let ?json = "[''/'', ''opt'', ''inventory'', ''reports'', ''system_info_20240101_120000.json'']"
  have blank: "list_all isspace ?line"
    by (simp add: isspace_def)
  have st: "strip ?line = []"
    by (rule strip_blank [OF blank])
  have run: "save_results ?h ?env [] =
               ([(?csv, csv_text ?h []), (?json, json_dumps ?h [])], Inr (?csv, ?json))"
    by (simp add: save_results_def posix_env_def filename_base_def st posix_joinpath_def Let_def)
  have line: "answer ?env = Some ?line"
    by (simp add: posix_env_def)
  have join: "\<forall>base name. list_all plain_char name \<and> name \<noteq> [] \<and> name \<noteq> ''.'' \<longrightarrow>
                 joinpath ?env base name = base @ [name]"
    by (simp add: posix_env_def posix_joinpath_plain)
  have ts: "list_all plain_char (timestamp ?env)"
    by (simp add: posix_env_def plain_char_def)
  have plain: "list_all plain_char (strip ?line)"
    by (simp add: st)
  from report_names [OF run line join ts plain, THEN conjunct2, THEN conjunct2, THEN conjunct1,
      THEN mp, OF blank]
  have name: "filename_base ?line ''20240101_120000'' = ''system_info_20240101_120000''"
    by (simp add: posix_env_def)
  from run have res: "snd (save_results ?h ?env []) = Inr (?csv, ?json)"
    by (simp only: snd_conv)
  from blank res name show ?thesis
    by (intro conjI)
qed

section \<open>What the readers find in the written files\<close>

lemma csv_unquoted_run:
  "\<not> list_ex csv_special s \<Longrightarrow>
   csv_scan Unquoted f row rows (s @ rest) = csv_scan Unquoted (rev s @ f) row rows rest"
  by (induction s arbitrary: f) (auto simp: csv_special_def)

lemma csv_quoted_run:
  "csv_scan Quoted f row rows
     (concat (map (\<lambda>c. if c = CHR 0x22 then [c, c] else [c]) s) @ CHR 0x22 # rest) =
   csv_scan QuoteSeen (rev s @ f) row rows rest"
  by (induction s arbitrary: f) auto

lemma csv_field_start:
  assumes "st = RowStart \<or> st = FieldStart"
  shows "csv_scan st [] row rows (csv_field s @ c # rest) =
         (if list_ex csv_special s then csv_scan QuoteSeen (rev s) row rows (c # rest)
          else if s = [] then csv_scan st [] row rows (c # rest)
          else csv_scan Unquoted (rev s) row rows (c # rest))"
proof (cases "list_ex csv_special s")
  case True
  with assms show ?thesis
    using csv_quoted_run [of "[]" row rows s "c # rest"] by (auto simp: csv_field_def)
next
  case False
  show ?thesis
  proof (cases s)
    case Nil
    with False show ?thesis by (simp add: csv_field_def)
  next
    case (Cons a t)
    with False have a: "\<not> csv_special a" and t: "\<not> list_ex csv_special t"
      by simp_all
    from a assms have "csv_scan st [] row rows (a # t @ c # rest) =
                       csv_scan Unquoted [a] row rows (t @ c # rest)"
      by (auto simp: csv_special_def)
    also have "\<dots> = csv_scan Unquoted (rev t @ [a]) row rows (c # rest)"
      by (rule csv_unquoted_run [OF t])
    finally show ?thesis
      using False Cons by (simp add: csv_field_def)
  qed
qed

lemma csv_field_comma:
  assumes "st = RowStart \<or> st = FieldStart"
  shows "csv_scan st [] row rows (csv_field s @ CHR '','' # rest) =
         csv_scan FieldStart [] (s # row) rows rest"
  using assms by (auto simp: csv_field_start)

lemma csv_field_end:
  "csv_scan FieldStart [] row rows (csv_field s @ CHR 0x0D # CHR 0x0A # rest) =
   csv_scan RowStart [] [] (rev (s # row) # rows) rest"
  by (simp add: csv_field_start)

lemma csv_row_read:
  "csv_scan RowStart [] [] rows (csv_writerow [a, b] @ rest) =
   csv_scan RowStart [] [] ([a, b] # rows) rest"
proof -
  have "csv_writerow [a, b] @ rest =
        csv_field a @ CHR '','' # (csv_field b @ CHR 0x0D # CHR 0x0A # rest)"
    by (simp add: csv_writerow_def join_def)
  then show ?thesis
    by (simp add: csv_field_comma csv_field_end)
qed

lemma csv_rows_read:
  "csv_scan RowStart [] [] rows (concat (map (\<lambda>(k, v). csv_writerow [k, f v]) specs) @ rest) =
   csv_scan RowStart [] [] (rev (map (\<lambda>(k, v). [k, f v]) specs) @ rows) rest"
proof (induction specs arbitrary: rows)
  case Nil
  show ?case by simp
next
  case (Cons m specs)
  obtain k v where m: "m = (k, v)" by (cases m)
  have "csv_scan RowStart [] [] rows
          (concat (map (\<lambda>(k, v). csv_writerow [k, f v]) (m # specs)) @ rest) =
        csv_scan RowStart [] [] rows
          (csv_writerow [k, f v] @ (concat (map (\<lambda>(k, v). csv_writerow [k, f v]) specs) @ rest))"
    by (simp add: m)
  also have "\<dots> = csv_scan RowStart [] [] ([k, f v] # rows)
          (concat (map (\<lambda>(k, v). csv_writerow [k, f v]) specs) @ rest)"
    by (rule csv_row_read)
  also have "\<dots> = csv_scan RowStart [] []
          (rev (map (\<lambda>(k, v). [k, f v]) specs) @ [k, f v] # rows) rest"
    by (rule Cons.IH)
  finally show ?case
    by (simp add: m)
qed

lemma csv_read_csv_text:
  "csv_read (csv_text h specs) =
   Some ([''Specification'', ''Value''] # map (\<lambda>(k, v). [k, py_str h v]) specs)"
proof -
  have "csv_read (csv_text h specs) =
        csv_scan RowStart [] [] []
          (csv_writerow [''Specification'', ''Value'']
           @ (concat (map (\<lambda>(k, v). csv_writerow [k, py_str h v]) specs) @ []))"
    by (simp add: csv_read_def csv_text_def)
  also have "\<dots> = csv_scan RowStart [] [] [[''Specification'', ''Value'']]
          (concat (map (\<lambda>(k, v). csv_writerow [k, py_str h v]) specs) @ [])"
    by (rule csv_row_read)
  also have "\<dots> = csv_scan RowStart [] []
          (rev (map (\<lambda>(k, v). [k, py_str h v]) specs) @ [[''Specification'', ''Value'']]) []"
    by (rule csv_rows_read)
  finally show ?thesis
    by simp
qed

lemma hex_value_hex_digit:
  assumes "k < 16"
  shows "hex_value (hex_digit k) = Some k"
proof -
  from assms have "k = 0 \<or> k = 1 \<or> k = 2 \<or> k = 3 \<or> k = 4 \<or> k = 5 \<or> k = 6 \<or> k = 7 \<or>
      k = 8 \<or> k = 9 \<or> k = 10 \<or> k = 11 \<or> k = 12 \<or> k = 13 \<or> k = 14 \<or> k = 15"
    by arith
  then show ?thesis
    by (elim disjE) (simp_all add: hex_digit_def hex_value_def)
qed

lemma hex4_escape:
  "hex4 (CHR ''0'') (CHR ''0'') (hex_digit (of_char c div 16)) (hex_digit (of_char c mod 16)) =
   Some c"
proof -
  have "(of_char c :: nat) mod 256 = of_char c"
    by (rule of_char_mod_256)
  moreover have "(of_char c :: nat) mod 256 < 256"
    by simp
  ultimately have lt: "(of_char c :: nat) < 256"
    by simp
  then have d: "(of_char c :: nat) div 16 < 16"
    by arith
  have z: "hex_value (CHR ''0'') = Some 0"
    by (simp add: hex_value_def)
  have "16 * ((of_char c :: nat) div 16) + of_char c mod 16 = of_char c"
    by simp
  then show ?thesis
    by (simp add: hex4_def z hex_value_hex_digit [OF d] hex_value_hex_digit)
qed

lemma json_unquote_escape:
  "json_unquote (json_escape c @ t) =
   (case json_unquote t of None \<Rightarrow> None | Some (s, rest) \<Rightarrow> Some (c # s, rest))"
proof -
  consider (short) "c = CHR 0x22 \<or> c = CHR 0x5C \<or> c = CHR 0x08 \<or> c = CHR 0x0C
      \<or> c = CHR 0x0A \<or> c = CHR 0x0D \<or> c = CHR 0x09"
    | (plain) "\<not> (c = CHR 0x22 \<or> c = CHR 0x5C \<or> c = CHR 0x08 \<or> c = CHR 0x0C
      \<or> c = CHR 0x0A \<or> c = CHR 0x0D \<or> c = CHR 0x09)"
        "32 \<le> (of_char c :: nat) \<and> (of_char c :: nat) \<le> 126"
    | (hex) "\<not> (c = CHR 0x22 \<or> c = CHR 0x5C \<or> c = CHR 0x08 \<or> c = CHR 0x0C
      \<or> c = CHR 0x0A \<or> c = CHR 0x0D \<or> c = CHR 0x09)"
        "\<not> (32 \<le> (of_char c :: nat) \<and> (of_char c :: nat) \<le> 126)"
    by blast
  then show ?thesis
  proof cases
    case short
    then show ?thesis
      by (elim disjE) (simp_all add: json_escape_def json_unescape_def split: option.split)
  next
    case plain
    then show ?thesis
      by (simp add: json_escape_def)
  next
    case hex
    then show ?thesis
      by (simp add: json_escape_def Let_def hex4_escape)
  qed
qed

lemma json_unquote_string:
  "json_unquote (concat (map json_escape s) @ CHR 0x22 # rest) = Some (s, rest)"
  by (induction s) (simp_all add: json_unquote_escape)

lemma json_read_string:
  "json_read_value (json_string s @ rest) = Some (JString s, rest)"
  by (simp add: json_read_value_def json_string_def json_unquote_string)

lemma isdigit_plain:
  "isdigit c \<Longrightarrow> \<not> json_delim c \<and> c \<noteq> CHR 0x22 \<and> c \<noteq> CHR ''n'' \<and> c \<noteq> CHR ''N''
     \<and> c \<noteq> CHR ''I'' \<and> c \<noteq> CHR ''-''"
  by (auto simp: isdigit_def json_delim_def json_ws_def)

lemma number_scan_chars:
  "number_scan st s \<Longrightarrow> list_all (\<lambda>c. \<not> json_delim c) s"
proof (induction s arbitrary: st)
  case Nil
  show ?case by simp
next
  case (Cons c s)
  from Cons.prems obtain st' where n: "number_scan st' s"
    and c: "isdigit c \<or> c = CHR ''-'' \<or> c = CHR ''0'' \<or> c = CHR ''.'' \<or> c = CHR ''e''
        \<or> c = CHR ''E'' \<or> c = CHR ''+''"
    by (cases st) (auto split: if_splits)
  from c have "\<not> json_delim c"
    using isdigit_plain [of c] by (auto simp: json_delim_def json_ws_def)
  with Cons.IH [OF n] show ?case
    by simp
qed

lemma json_number_hd:
  assumes "json_number t"
  shows "t \<noteq> [] \<and> hd t \<noteq> CHR 0x22 \<and> hd t \<noteq> CHR ''n'' \<and> hd t \<noteq> CHR ''N'' \<and> hd t \<noteq> CHR ''I''
         \<and> t \<noteq> ''-Infinity''"
proof (cases t)
  case Nil
  with assms show ?thesis
    by (simp add: json_number_def)
next
  case (Cons c cs)
  with assms have c: "c = CHR ''-'' \<or> c = CHR ''0'' \<or> isdigit c"
    by (auto simp: json_number_def split: if_splits)
  have i: "\<not> isdigit (CHR ''I'')"
    by (simp add: isdigit_def)
  from assms have "t \<noteq> ''-Infinity''"
    by (auto simp: json_number_def i)
  with c Cons show ?thesis
    using isdigit_plain [of c] by auto
qed

lemma json_read_word:
  assumes chars: "list_all (\<lambda>c. \<not> json_delim c) t"
    and ne: "t \<noteq> []" and q: "hd t \<noteq> CHR 0x22"
    and d: "json_delim d"
  shows "json_read_value (t @ d # rest) =
         (if t = ''null'' then Some (JNull, d # rest)
          else if t = ''NaN'' then Some (JNaN, d # rest)
          else if t = ''Infinity'' then Some (JInfinity, d # rest)
          else if t = ''-Infinity'' then Some (JNegInfinity, d # rest)
          else if json_number t then Some (JNumber t, d # rest)
          else None)"
proof -
  from chars have a: "\<forall>c\<in>set t. \<not> json_delim c"
    by (simp add: list_all_iff)
  have tw: "takeWhile (\<lambda>c. \<not> json_delim c) (t @ d # rest) = t"
    using a d by (simp add: takeWhile_append2)
  have dw: "dropWhile (\<lambda>c. \<not> json_delim c) (t @ d # rest) = d # rest"
    using a d by (simp add: dropWhile_append2)
  from ne obtain c cs where t: "t = c # cs"
    by (cases t) simp_all
  with q have c: "c \<noteq> CHR 0x22"
    by simp
  have "json_read_value ((c # cs) @ d # rest) =
        (let tok = takeWhile (\<lambda>c. \<not> json_delim c) ((c # cs) @ d # rest);
             rest' = dropWhile (\<lambda>c. \<not> json_delim c) ((c # cs) @ d # rest)
         in if tok = ''null'' then Some (JNull, rest')
            else if tok = ''NaN'' then Some (JNaN, rest')
            else if tok = ''Infinity'' then Some (JInfinity, rest')
            else if tok = ''-Infinity'' then Some (JNegInfinity, rest')
            else if json_number tok then Some (JNumber tok, rest')
            else None)"
    using c by (simp add: json_read_value_def)
  also have "\<dots> = (if t = ''null'' then Some (JNull, d # rest)
          else if t = ''NaN'' then Some (JNaN, d # rest)
          else if t = ''Infinity'' then Some (JInfinity, d # rest)
          else if t = ''-Infinity'' then Some (JNegInfinity, d # rest)
          else if json_number t then Some (JNumber t, d # rest)
          else None)"
    unfolding t [symmetric] tw dw Let_def by (rule refl)
  finally show ?thesis
    by (simp only: t)
qed

lemma json_read_name:
  assumes "json_delim d"
  shows "json_read_value (''null'' @ d # rest) = Some (JNull, d # rest)"
    and "json_read_value (''NaN'' @ d # rest) = Some (JNaN, d # rest)"
    and "json_read_value (''Infinity'' @ d # rest) = Some (JInfinity, d # rest)"
    and "json_read_value (''-Infinity'' @ d # rest) = Some (JNegInfinity, d # rest)"
  using assms by (subst json_read_word; simp add: json_delim_def json_ws_def)+

lemma str_nat_digits: "list_all isdigit (str_nat n)"
proof (induction n rule: str_nat.induct)
  case (1 n)
  show ?case
  proof (cases "n < 10")
    case True
    then show ?thesis
      using digit_char [of n] by (subst str_nat.simps) simp
  next
    case False
    with 1 have "list_all isdigit (str_nat (n div 10))"
      by simp
    then show ?thesis
      using False digit_char [of "n mod 10"] by (subst str_nat.simps) simp
  qed
qed

lemma str_nat_not_empty: "str_nat n \<noteq> []"
  by (subst str_nat.simps) simp

lemma str_nat_hd: "0 < n \<Longrightarrow> hd (str_nat n) \<noteq> CHR ''0''"
proof (induction n rule: str_nat.induct)
  case (1 n)
  show ?case
  proof (cases "n < 10")
    case True
    from digit_char [OF True] have "digit_value (''0123456789'' ! n) = int n"
      by simp
    with 1(2) have "digit_value (''0123456789'' ! n) \<noteq> digit_value (CHR ''0'')"
      by (simp add: digit_value_def)
    then have "''0123456789'' ! n \<noteq> CHR ''0''"
      by (rule contrapos_nn) (simp only:)
    with True show ?thesis
      by (subst str_nat.simps) simp
  next
    case False
    then have "0 < n div 10"
      by arith
    with 1(1) False have "hd (str_nat (n div 10)) \<noteq> CHR ''0''"
      by simp
    then show ?thesis
      using False str_nat_not_empty [of "n div 10"] by (subst str_nat.simps) simp
  qed
qed

lemma number_scan_digits: "list_all isdigit s \<Longrightarrow> number_scan NInt s"
  by (induction s) simp_all

lemma json_number_str_nat: "json_number (str_nat n)"
proof (cases "n = 0")
  case True
  then show ?thesis
    by (simp add: json_number_def str_nat.simps)
next
  case False
  obtain c cs where s: "str_nat n = c # cs"
    using str_nat_not_empty [of n] by (cases "str_nat n") simp_all
  from False have "hd (str_nat n) \<noteq> CHR ''0''"
    by (simp add: str_nat_hd)
  with s have z: "c \<noteq> CHR ''0''"
    by simp
  from str_nat_digits [of n] s have c: "isdigit c" and cs: "list_all isdigit cs"
    by simp_all
  from c have m: "c \<noteq> CHR ''-''"
    using isdigit_plain [of c] by simp
  show ?thesis
    unfolding json_number_def s using z c m number_scan_digits [OF cs] by simp
qed

lemma json_number_str_int: "json_number (str_int i)"
proof (cases "i < 0")
  case False
  then show ?thesis
    by (simp add: str_int_def json_number_str_nat)
next
  case True
  then have pos: "0 < nat (- i)"
    by simp
  obtain c cs where s: "str_nat (nat (- i)) = c # cs"
    using str_nat_not_empty [of "nat (- i)"] by (cases "str_nat (nat (- i))") simp_all
  from str_nat_hd [OF pos] s have z: "c \<noteq> CHR ''0''"
    by simp
  from str_nat_digits [of "nat (- i)"] s have c: "isdigit c" and cs: "list_all isdigit cs"
    by simp_all
  show ?thesis
    unfolding json_number_def str_int_def s using True z c number_scan_digits [OF cs] by simp
qed

lemma json_read_number:
  assumes "json_number t" and "json_delim d"
  shows "json_read_value (t @ d # rest) = Some (JNumber t, d # rest)"
proof -
  note hd = json_number_hd [OF assms(1)]
  from hd have n: "t \<noteq> ''null''" "t \<noteq> ''NaN''" "t \<noteq> ''Infinity''"
    by auto
  have chars: "list_all (\<lambda>c. \<not> json_delim c) t"
    using number_scan_chars [of NStart t] assms(1) by (simp add: json_number_def)
  from hd have ne: "t \<noteq> []" and q: "hd t \<noteq> CHR 0x22"
    by simp_all
  show ?thesis
    unfolding json_read_word [OF chars ne q assms(2)] using n hd assms(1) by simp
qed

lemma json_number_ws:
  assumes "json_number t"
  shows "t \<noteq> [] \<and> \<not> json_ws (hd t)"
proof -
  from json_number_hd [OF assms] obtain c cs where t: "t = c # cs"
    by (cases t) simp_all
  from number_scan_chars [of NStart t] assms have "\<not> json_delim c"
    by (simp add: json_number_def t)
  with t show ?thesis
    by (simp add: json_delim_def)
qed

lemma json_read_value_written:
  assumes ok: "float_text_ok h v" and d: "json_delim d"
  shows "json_read_value (json_value h v @ d # rest) = Some (jvalue_of h v, d # rest)"
proof (cases v)
  case PNone
  with json_read_name(1) [OF d] show ?thesis
    by simp
next
  case (PStr s)
  then show ?thesis
    by (simp add: json_read_string)
next
  case (PInt i)
  then show ?thesis
    using json_read_number [OF json_number_str_int d] by simp
next
  case (PFloat x)
  show ?thesis
  proof (cases "float_kind h x")
    case Finite
    with ok PFloat have "json_number (float_str h x)"
      by simp
    from json_read_number [OF this d] Finite PFloat show ?thesis
      by (simp add: json_float_def)
  next
    case NaN
    with json_read_name(2) [OF d] NaN PFloat show ?thesis
      by (simp add: json_float_def)
  next
    case PosInf
    with json_read_name(3) [OF d] PosInf PFloat show ?thesis
      by (simp add: json_float_def)
  next
    case NegInf
    with json_read_name(4) [OF d] NegInf PFloat show ?thesis
      by (simp add: json_float_def)
  qed
qed

lemma json_value_hd:
  assumes "float_text_ok h v"
  shows "json_value h v \<noteq> [] \<and> \<not> json_ws (hd (json_value h v))"
proof (cases v)
  case PNone
  then show ?thesis by (simp add: json_ws_def)
next
  case (PStr s)
  then show ?thesis by (simp add: json_string_def json_ws_def)
next
  case (PInt i)
  then show ?thesis
    using json_number_ws [OF json_number_str_int, of i] by simp
next
  case (PFloat x)
  show ?thesis
  proof (cases "float_kind h x")
    case Finite
    with assms PFloat have "json_number (float_str h x)"
      by simp
    from json_number_ws [OF this] Finite PFloat show ?thesis
      by (simp add: json_float_def)
  next
    case NaN
    with PFloat show ?thesis by (simp add: json_float_def json_ws_def)
  next
    case PosInf
    with PFloat show ?thesis by (simp add: json_float_def json_ws_def)
  next
    case NegInf
    with PFloat show ?thesis by (simp add: json_float_def json_ws_def)
  qed
qed

lemma string_representation_written:
  assumes "float_text_ok h v"
  shows "spec_string_representation (jvalue_of h v) = py_str h v"
proof (cases v)
  case (PFloat x)
  with assms show ?thesis
    by (cases "float_kind h x") simp_all
qed simp_all

lemma join_Cons: "xs \<noteq> [] \<Longrightarrow> join sep (x # xs) = x @ sep @ join sep xs"
  by (cases xs) (simp_all add: join_def)

lemma join_single: "join sep [x] = x"
  by (simp add: join_def)

lemma length_separated: "sep \<noteq> [] \<Longrightarrow> length ys \<le> length (concat (map (\<lambda>z. sep @ z) ys))"
proof (induction ys)
  case Nil
  show ?case by simp
next
  case (Cons y ys)
  from Cons.prems have l: "Suc 0 \<le> length sep"
    by (cases sep) simp_all
  have "length (concat (map (\<lambda>z. sep @ z) (y # ys))) =
        length sep + length y + length (concat (map (\<lambda>z. sep @ z) ys))"
    by simp
  moreover have "length (y # ys) = Suc (length ys)"
    by simp
  ultimately show ?case
    using Cons.IH [OF Cons.prems] l by (simp only:)
qed

lemma length_join: "sep \<noteq> [] \<Longrightarrow> length xs \<le> Suc (length (join sep xs))"
proof (cases xs)
  case Nil
  then show ?thesis by simp
next
  case (Cons y ys)
  assume "sep \<noteq> []"
  from length_separated [OF this, of ys] Cons show ?thesis
    by (simp add: join_def)
qed

lemma skip_ws_member:
  "skip_ws (json_member h (k, v) @ rest) =
   CHR 0x22 # concat (map json_escape k) @ CHR 0x22 # ('': '' @ json_value h v @ rest)"
  by (simp add: json_member_def json_string_def skip_ws_def json_ws_def)

lemma json_read_member_value:
  assumes ok: "float_text_ok h v" and d: "json_delim d"
  shows "json_read_value (skip_ws (CHR '' '' # json_value h v @ d # rest)) =
         Some (jvalue_of h v, d # rest)"
proof -
  from json_value_hd [OF ok] obtain c cs where v: "json_value h v = c # cs" and c: "\<not> json_ws c"
    by (cases "json_value h v") simp_all
  have "skip_ws (CHR '' '' # json_value h v @ d # rest) = json_value h v @ d # rest"
    unfolding v using c by (simp add: skip_ws_def json_ws_def)
  then show ?thesis
    by (simp only: json_read_value_written [OF ok d])
qed

lemma json_read_last_member:
  assumes ok: "float_text_ok h v"
  shows "json_read_members (Suc n) (skip_ws (json_member h (k, v) @ [CHR 0x0A] @ ''}'')) =
         Some [(k, jvalue_of h v)]"
proof -
  have d: "json_delim (CHR 0x0A)"
    by (simp add: json_delim_def json_ws_def)
  have c: "skip_ws ('': '' @ json_value h v @ [CHR 0x0A] @ ''}'') =
           CHR '':'' # (CHR '' '' # json_value h v @ CHR 0x0A # ''}'')"
    by (simp add: skip_ws_def json_ws_def)
  have e: "skip_ws (CHR 0x0A # ''}'') = ''}''" "skip_ws [] = []"
    by (simp_all add: skip_ws_def json_ws_def)
  show ?thesis
    unfolding skip_ws_member json_read_members.simps
    by (simp only: list.case json_unquote_string option.case prod.case c
        json_read_member_value [OF ok d] e) simp
qed

lemma json_read_next_member:
  assumes ok: "float_text_ok h v"
  shows "json_read_members (Suc n) (skip_ws (json_member h (k, v) @ ('','' @ [CHR 0x0A]) @ rest)) =
         (case json_read_members n (skip_ws rest) of
            None \<Rightarrow> None
          | Some ms \<Rightarrow> Some ((k, jvalue_of h v) # ms))"
proof -
  have d: "json_delim (CHR '','')"
    by (simp add: json_delim_def json_ws_def)
  have a: "json_member h (k, v) @ ('','' @ [CHR 0x0A]) @ rest =
           json_member h (k, v) @ CHR '','' # CHR 0x0A # rest"
    by simp
  have c: "skip_ws ('': '' @ json_value h v @ CHR '','' # CHR 0x0A # rest) =
           CHR '':'' # (CHR '' '' # json_value h v @ CHR '','' # (CHR 0x0A # rest))"
    by (simp add: skip_ws_def json_ws_def)
  have e: "skip_ws (CHR '','' # (CHR 0x0A # rest)) = CHR '','' # (CHR 0x0A # rest)"
    "skip_ws (CHR 0x0A # rest) = skip_ws rest"
    by (simp_all add: skip_ws_def json_ws_def)
  show ?thesis
    unfolding a skip_ws_member json_read_members.simps
    by (simp only: list.case json_unquote_string option.case prod.case c
        json_read_member_value [OF ok d] e) simp
qed

lemma json_read_written_members:
  assumes "specs \<noteq> []" and "list_all (\<lambda>(k, v). float_text_ok h v) specs"
    and "length specs \<le> n"
  shows "json_read_members n
           (skip_ws (join ('','' @ [CHR 0x0A]) (map (json_member h) specs) @ [CHR 0x0A] @ ''}'')) =
         Some (map (\<lambda>(k, v). (k, jvalue_of h v)) specs)"
  using assms
proof (induction specs arbitrary: n)
  case Nil
  then show ?case by simp
next
  case (Cons m ms)
  obtain k v where m: "m = (k, v)" by (cases m)
  from Cons.prems(3) obtain n' where n: "n = Suc n'" and n': "length ms \<le> n'"
    by (cases n) simp_all
  from Cons.prems(2) m have ok: "float_text_ok h v"
    and oks: "list_all (\<lambda>(k, v). float_text_ok h v) ms"
    by simp_all
  show ?case
  proof (cases "ms = []")
    case True
    then show ?thesis
      unfolding n m using json_read_last_member [OF ok, of n' k] by (simp add: join_single)
  next
    case False
    then have j: "join ('','' @ [CHR 0x0A]) (map (json_member h) ((k, v) # ms)) @ [CHR 0x0A] @ ''}'' =
        json_member h (k, v) @ ('','' @ [CHR 0x0A])
          @ (join ('','' @ [CHR 0x0A]) (map (json_member h) ms) @ [CHR 0x0A] @ ''}'')"
      by (simp add: join_Cons)
    show ?thesis
      unfolding n m j json_read_next_member [OF ok] Cons.IH [OF False oks n']
      by simp
  qed
qed

lemma json_load_json_dumps:
  assumes "list_all (\<lambda>(k, v). float_text_ok h v) specs"
  shows "json_load (json_dumps h specs) = Some (map (\<lambda>(k, v). (k, jvalue_of h v)) specs)"
proof (cases "specs = []")
  case True
  then show ?thesis
    by (simp add: json_load_def json_dumps_def skip_ws_def json_ws_def)
next
  case False
  define body where
    "body = join ('','' @ [CHR 0x0A]) (map (json_member h) specs) @ [CHR 0x0A] @ ''}''"
  from False have s: "json_dumps h specs = CHR ''{'' # CHR 0x0A # body"
    by (simp add: json_dumps_def body_def)
  from False obtain k v ms where specs: "specs = (k, v) # ms"
    by (cases specs) auto
  have "body = json_member h (k, v) @ drop (length (json_member h (k, v))) body"
    by (simp add: body_def specs join_def)
  then obtain t where q: "skip_ws body = CHR 0x22 # t"
    using skip_ws_member [of h k v "drop (length (json_member h (k, v))) body"] by simp
  have "length specs \<le> Suc (length (join ('','' @ [CHR 0x0A]) (map (json_member h) specs)))"
    using length_join [of "'','' @ [CHR 0x0A]" "map (json_member h) specs"] by simp
  then have fuel: "length specs \<le> length (CHR ''{'' # CHR 0x0A # body)"
    by (simp add: body_def)
  have r: "json_read_members (length (CHR ''{'' # CHR 0x0A # body)) (skip_ws body) =
           Some (map (\<lambda>(k, v). (k, jvalue_of h v)) specs)"
    unfolding body_def by (rule json_read_written_members [OF False assms fuel [unfolded body_def]])
  have w: "skip_ws (CHR ''{'' # CHR 0x0A # body) = CHR ''{'' # CHR 0x0A # body"
    "skip_ws (CHR 0x0A # body) = skip_ws body"
    by (simp_all add: skip_ws_def json_ws_def)
  have "json_load (CHR ''{'' # CHR 0x0A # body) =
        json_read_members (length (CHR ''{'' # CHR 0x0A # body)) (skip_ws body)"
    by (simp add: json_load_def w q del: json_read_members.simps)
  with r s show ?thesis
    by simp
qed

section \<open>The two reports\<close>

lemma representations_written:
  "list_all (\<lambda>(key, value). float_text_ok h value) specs \<Longrightarrow>
   map (\<lambda>(key, j). [key, spec_string_representation j])
     (map (\<lambda>(key, value). (key, jvalue_of h value)) specs) =
   map (\<lambda>(key, value). [key, py_str h value]) specs"
  by (induction specs) (auto simp: string_representation_written)

text \<open>
  Claim C8. When \<^verbatim>\<open>save_results\<close> returns, it has written the CSV file and then
  the JSON file. Read back, the JSON file holds one member for every key of the
  record, in insertion order, and the CSV file holds the header row and then one row
  for every member of the JSON file, in the same order, with the key of the member
  and the string representation of its value: the characters of a string, the
  decimal text of a number as it stands in the JSON file. \<open>float_text_ok\<close> is what
  Python's \<^verbatim>\<open>repr\<close> gives for every float.
\<close>

theorem reports_round_trip:
  assumes run: "save_results h env specs = (files, Inr (csv_file, json_file))"
    and floats: "list_all (\<lambda>(key, value). float_text_ok h value) specs"
  shows "map fst files = [csv_file, json_file] \<and>
         json_load (snd (files ! 1)) =
           Some (map (\<lambda>(key, value). (key, jvalue_of h value)) specs) \<and>
         csv_read (snd (files ! 0)) =
           Some ([''Specification'', ''Value''] #
                 map (\<lambda>(key, j). [key, spec_string_representation j])
                   (map (\<lambda>(key, value). (key, jvalue_of h value)) specs))"
proof -
  from run have files: "files = [(csv_file, csv_text h specs), (json_file, json_dumps h specs)]"
    by (auto simp: save_results_def Let_def split: option.splits if_splits)
  have names: "map fst files = [csv_file, json_file]"
    by (simp add: files)
  have json: "json_load (snd (files ! 1)) =
              Some (map (\<lambda>(key, value). (key, jvalue_of h value)) specs)"
    by (simp add: files json_load_json_dumps [OF floats])
  have csv: "csv_read (snd (files ! 0)) =
           Some ([''Specification'', ''Value''] #
                 map (\<lambda>(key, j). [key, spec_string_representation j])
                   (map (\<lambda>(key, value). (key, jvalue_of h value)) specs))"
    unfolding representations_written [OF floats] by (simp add: files csv_read_csv_text)
  from names json csv show ?thesis
    by (intro conjI)
qed

theorem reports_round_trip_witness:
  "list_all (\<lambda>(key, value). float_text_ok (decimal_host ''Windows'' no_commands NoModule) value)
     office_record \<and>
   save_results (decimal_host ''Windows'' no_commands NoModule) (posix_env (Some ''scan''))
       office_record =
     ([([''/'', ''opt'', ''inventory'', ''reports'', ''scan_20240101_120000.csv''],
        ''Specification,Value'' @ [CHR 0x0D, CHR 0x0A] @ ''OS,Windows'' @
        [CHR 0x0D, CHR 0x0A] @ ''CPU,'' @ [CHR 0x22] @ ''Intel i7, 2.6 '' @
        [CHR 0x22, CHR 0x22] @ ''GHz'' @
        [CHR 0x22, CHR 0x22, CHR 0x22, CHR 0x0D, CHR 0x0A] @ ''RAM_GB,16.0'' @
        [CHR 0x0D, CHR 0x0A] @ ''Serial_Number,None'' @ [CHR 0x0D, CHR 0x0A] @
        ''GPU_1_Memory,4293918720'' @ [CHR 0x0D, CHR 0x0A]),
       ([''/'', ''opt'', ''inventory'', ''reports'', ''scan_20240101_120000.json''],
        ''{'' @ [CHR 0x0A] @ ''    '' @ [CHR 0x22] @ ''OS'' @ [CHR 0x22] @
        '': '' @ [CHR 0x22] @ ''Windows'' @ [CHR 0x22] @ '','' @ [CHR 0x0A] @
        ''    '' @ [CHR 0x22] @ ''CPU'' @ [CHR 0x22] @ '': '' @ [CHR 0x22] @
        ''Intel i7, 2.6 '' @ [CHR 0x5C, CHR 0x22] @ ''GHz'' @
        [CHR 0x5C, CHR 0x22, CHR 0x22] @ '','' @ [CHR 0x0A] @ ''    '' @
        [CHR 0x22] @ ''RAM_GB'' @ [CHR 0x22] @ '': 16.0,'' @ [CHR 0x0A] @
        ''    '' @ [CHR 0x22] @ ''Serial_Number'' @ [CHR 0x22] @ '': null,'' @
        [CHR 0x0A] @ ''    '' @ [CHR 0x22] @ ''GPU_1_Memory'' @ [CHR 0x22] @
        '': 4293918720'' @ [CHR 0x0A] @ ''}'')],
      Inr ([''/'', ''opt'', ''inventory'', ''reports'', ''scan_20240101_120000.csv''],
           [''/'', ''opt'', ''inventory'', ''reports'', ''scan_20240101_120000.json''])) \<and>
   json_load
       (''{'' @ [CHR 0x0A] @ ''    '' @ [CHR 0x22] @ ''OS'' @ [CHR 0x22] @
        '': '' @ [CHR 0x22] @ ''Windows'' @ [CHR 0x22] @ '','' @ [CHR 0x0A] @
        ''    '' @ [CHR 0x22] @ ''CPU'' @ [CHR 0x22] @ '': '' @ [CHR 0x22] @
        ''Intel i7, 2.6 '' @ [CHR 0x5C, CHR 0x22] @ ''GHz'' @
        [CHR 0x5C, CHR 0x22, CHR 0x22] @ '','' @ [CHR 0x0A] @ ''    '' @
        [CHR 0x22] @ ''RAM_GB'' @ [CHR 0x22] @ '': 16.0,'' @ [CHR 0x0A] @
        ''    '' @ [CHR 0x22] @ ''Serial_Number'' @ [CHR 0x22] @ '': null,'' @
        [CHR 0x0A] @ ''    '' @ [CHR 0x22] @ ''GPU_1_Memory'' @ [CHR 0x22] @
        '': 4293918720'' @ [CHR 0x0A] @ ''}'') =
     Some [(''OS'', JString ''Windows''),
           (''CPU'', JString (''Intel i7, 2.6 '' @ [CHR 0x22] @ ''GHz'' @ [CHR 0x22])),
           (''RAM_GB'', JNumber ''16.0''),
           (''Serial_Number'', JNull),
           (''GPU_1_Memory'', JNumber ''4293918720'')] \<and>
   csv_read
       (''Specification,Value'' @ [CHR 0x0D, CHR 0x0A] @ ''OS,Windows'' @
        [CHR 0x0D, CHR 0x0A] @ ''CPU,'' @ [CHR 0x22] @ ''Intel i7, 2.6 '' @
        [CHR 0x22, CHR 0x22] @ ''GHz'' @
        [CHR 0x22, CHR 0x22, CHR 0x22, CHR 0x0D, CHR 0x0A] @ ''RAM_GB,16.0'' @
        [CHR 0x0D, CHR 0x0A] @ ''Serial_Number,None'' @ [CHR 0x0D, CHR 0x0A] @
        ''GPU_1_Memory,4293918720'' @ [CHR 0x0D, CHR 0x0A]) =
     Some [[''Specification'', ''Value''],
           [''OS'', ''Windows''],
           [''CPU'', ''Intel i7, 2.6 '' @ [CHR 0x22] @ ''GHz'' @ [CHR 0x22]],
           [''RAM_GB'', ''16.0''],
           [''Serial_Number'', ''None''],
           [''GPU_1_Memory'', ''4293918720'']]"
proof -
  let ?h = "decimal_host ''Windows'' no_commands NoModule"
  let ?env = "posix_env (Some ''scan'')"
  let ?csv = "[''/'', ''opt'', ''inventory'', ''reports'', ''scan_20240101_120000.csv'']"
  let ?json = "[''/'', ''opt'', ''inventory'', ''reports'', ''scan_20240101_120000.json'']"
  let ?csv_text = "''Specification,Value'' @ [CHR 0x0D, CHR 0x0A] @ ''OS,Windows'' @
        [CHR 0x0D, CHR 0x0A] @ ''CPU,'' @ [CHR 0x22] @ ''Intel i7, 2.6 '' @
        [CHR 0x22, CHR 0x22] @ ''GHz'' @
        [CHR 0x22, CHR 0x22, CHR 0x22, CHR 0x0D, CHR 0x0A] @ ''RAM_GB,16.0'' @
        [CHR 0x0D, CHR 0x0A] @ ''Serial_Number,None'' @ [CHR 0x0D, CHR 0x0A] @
        ''GPU_1_Memory,4293918720'' @ [CHR 0x0D, CHR 0x0A]"
  let ?json_text = "''{'' @ [CHR 0x0A] @ ''    '' @ [CHR 0x22] @ ''OS'' @ [CHR 0x22] @
        '': '' @ [CHR 0x22] @ ''Windows'' @ [CHR 0x22] @ '','' @ [CHR 0x0A] @
        ''    '' @ [CHR 0x22] @ ''CPU'' @ [CHR 0x22] @ '': '' @ [CHR 0x22] @
        ''Intel i7, 2.6 '' @ [CHR 0x5C, CHR 0x22] @ ''GHz'' @
        [CHR 0x5C, CHR 0x22, CHR 0x22] @ '','' @ [CHR 0x0A] @ ''    '' @
        [CHR 0x22] @ ''RAM_GB'' @ [CHR 0x22] @ '': 16.0,'' @ [CHR 0x0A] @
        ''    '' @ [CHR 0x22] @ ''Serial_Number'' @ [CHR 0x22] @ '': null,'' @
        [CHR 0x0A] @ ''    '' @ [CHR 0x22] @ ''GPU_1_Memory'' @ [CHR 0x22] @
        '': 4293918720'' @ [CHR 0x0A] @ ''}''"
  have ram: "decimal_str (17179869184, 3) = ''16.0''"
    by (simp add: decimal_str_def Let_def str_nat.simps)
  have mem: "str_int 4293918720 = ''4293918720''"
    by (simp add: str_int_def str_nat.simps)
  have h: "float_str ?h = decimal_str" "float_kind ?h = (\<lambda>x. Finite)"
    by (simp_all add: decimal_host_def test_host_def)
  have floats: "list_all (\<lambda>(key, value). float_text_ok ?h value) office_record"
    by (simp add: office_record_def h ram json_number_def isdigit_def)
  have ct: "csv_text ?h office_record = ?csv_text"
    by (simp add: office_record_def csv_text_def csv_writerow_def csv_field_def csv_special_def
        join_def h ram mem)
  have jt: "json_dumps ?h office_record = ?json_text"
    by (simp add: office_record_def json_dumps_def json_member_def json_string_def
        json_escape_def json_float_def join_def h ram mem)
  have st: "strip ''scan'' = ''scan''"
    by (simp add: strip_def isspace_def)
  have ne: "office_record \<noteq> []"
    by (simp add: office_record_def)
  have run: "save_results ?h ?env office_record =
               ([(?csv, ?csv_text), (?json, ?json_text)], Inr (?csv, ?json))"
    unfolding ct [symmetric] jt [symmetric]
    by (simp add: save_results_def posix_env_def filename_base_def st posix_joinpath_def Let_def)
  note round_trip = reports_round_trip [OF run floats]
  from round_trip [THEN conjunct2, THEN conjunct1]
  have json: "json_load ?json_text =
     Some [(''OS'', JString ''Windows''),
           (''CPU'', JString (''Intel i7, 2.6 '' @ [CHR 0x22] @ ''GHz'' @ [CHR 0x22])),
           (''RAM_GB'', JNumber ''16.0''),
           (''Serial_Number'', JNull),
           (''GPU_1_Memory'', JNumber ''4293918720'')]"
    by (simp add: office_record_def h ram mem)
  from round_trip [THEN conjunct2, THEN conjunct2]
  have csv: "csv_read ?csv_text =
     Some [[''Specification'', ''Value''],
           [''OS'', ''Windows''],
           [''CPU'', ''Intel i7, 2.6 '' @ [CHR 0x22] @ ''GHz'' @ [CHR 0x22]],
           [''RAM_GB'', ''16.0''],
           [''Serial_Number'', ''None''],
           [''GPU_1_Memory'', ''4293918720'']]"
    by (simp add: office_record_def h ram mem)
  from floats run json csv show ?thesis
    by (intro conjI)
qed

end
